theory Spec2Isabelle
  imports Main "HOL-Library.Word"
begin

unbundle bit_operations_syntax

section \<open>Basic types and constants of oseama.c\<close>

type_synonym byte = "8 word"
type_synonym u16 = "16 word"
type_synonym u32 = "32 word"

definition SEAMA_MAGIC :: u32 where
  "SEAMA_MAGIC = 0x5ea3a417"

text \<open>The errno values the tool negates and returns.\<close>

definition EIO :: int where "EIO = 5"
definition ENOMEM :: int where "ENOMEM = 12"
definition EACCES :: int where "EACCES = 13"
definition EINVAL :: int where "EINVAL = 22"

text \<open>\<open>sizeof(struct seama_seal_header)\<close>, \<open>sizeof(struct seama_entity_header)\<close>
  (both packed) and \<open>sizeof(buf)\<close> of the metadata buffers.\<close>

definition SEAL_HDR_SIZE :: nat where "SEAL_HDR_SIZE = 12"
definition ENTITY_HDR_SIZE :: nat where "ENTITY_HDR_SIZE = 28"
definition META_BUF_SIZE :: nat where "META_BUF_SIZE = 1024"

definition oseama_min :: "nat \<Rightarrow> nat \<Rightarrow> nat" where
  "oseama_min x y = (if x < y then x else y)"

subsection \<open>Byte order\<close>

text \<open>A header field is kept as the bytes it has in the file. \<open>be32_to_cpu\<close> and
  \<open>be16_to_cpu\<close> give the host value of such a field, \<open>cpu_to_be32\<close> and
  \<open>cpu_to_be16\<close> the bytes of a host value: most significant byte first, on either
  host byte order.\<close>

definition be16_to_cpu :: "byte \<Rightarrow> byte \<Rightarrow> u16" where
  "be16_to_cpu b0 b1 = push_bit 8 (ucast b0) OR ucast b1"

definition be32_to_cpu :: "byte \<Rightarrow> byte \<Rightarrow> byte \<Rightarrow> byte \<Rightarrow> u32" where
  "be32_to_cpu b0 b1 b2 b3 =
     push_bit 24 (ucast b0) OR push_bit 16 (ucast b1) OR push_bit 8 (ucast b2) OR ucast b3"

definition cpu_to_be16 :: "u16 \<Rightarrow> byte list" where
  "cpu_to_be16 x = [ucast (drop_bit 8 x), ucast x]"

definition cpu_to_be32 :: "u32 \<Rightarrow> byte list" where
  "cpu_to_be32 x = [ucast (drop_bit 24 x), ucast (drop_bit 16 x), ucast (drop_bit 8 x), ucast x]"

text \<open>The fields of a header that has been read in full (at least 12 bytes).\<close>

definition hdr_magic :: "byte list \<Rightarrow> u32" where
  "hdr_magic h = be32_to_cpu (h ! 0) (h ! 1) (h ! 2) (h ! 3)"

definition hdr_metasize :: "byte list \<Rightarrow> u16" where
  "hdr_metasize h = be16_to_cpu (h ! 6) (h ! 7)"

definition hdr_imagesize :: "byte list \<Rightarrow> u32" where
  "hdr_imagesize h = be32_to_cpu (h ! 8) (h ! 9) (h ! 10) (h ! 11)"

subsection \<open>Streams\<close>

text \<open>A \<open>FILE\<close>: the bytes of the file, the position of the stream, whether \<open>fseek\<close>
  works on it (a regular file) or not (a pipe), and the number of bytes the device can hold:
  \<open>fwrite\<close> stores only the bytes that fall below \<open>fcap\<close> and returns a short count
  for the rest. The short count is how an unbuffered stream meets a full device. The program
  leaves its streams fully buffered, so there \<open>fwrite\<close> returns the full count and the
  failure comes at a later flush that nothing checks: on a run that fills the device the
  model and the program differ, and on every run whose writes stay below \<open>fcap\<close> they
  agree.\<close>

record FILE =
  fdata :: "byte list"
  fpos :: nat
  fseekable :: bool
  fcap :: nat

definition fread :: "nat \<Rightarrow> FILE \<Rightarrow> byte list \<times> FILE" where
  "fread n fp =
     (let bs = take n (drop (fpos fp) (fdata fp))
      in (bs, fp\<lparr>fpos := fpos fp + length bs\<rparr>))"

definition fwrite :: "byte list \<Rightarrow> FILE \<Rightarrow> nat \<times> FILE" where
  "fwrite bs fp =
     (let n = min (length bs) (fcap fp - fpos fp)
      in if n = 0 then (0, fp)
         else (n, fp\<lparr>fdata := take (fpos fp) (fdata fp @ replicate (fpos fp - length (fdata fp)) 0)
                              @ take n bs @ drop (fpos fp + n) (fdata fp),
                     fpos := fpos fp + n\<rparr>))"

text \<open>\<open>fseek(fp, n, SEEK_CUR)\<close>: 0 and the new position on a seekable stream (also
  beyond the end of the file), \<open>-1\<close> and no change on a pipe.\<close>

definition fseek_cur :: "FILE \<Rightarrow> nat \<Rightarrow> int \<times> FILE" where
  "fseek_cur fp n = (if fseekable fp then (0, fp\<lparr>fpos := fpos fp + n\<rparr>) else (-1, fp))"

definition fseek_set :: "FILE \<Rightarrow> nat \<Rightarrow> int \<times> FILE" where
  "fseek_set fp n = (if fseekable fp then (0, fp\<lparr>fpos := n\<rparr>) else (-1, fp))"

text \<open>What the tool prints on stderr, one constructor for each \<open>fprintf(stderr, ...)\<close>
  of the source, with the numbers it formats.\<close>

datatype diag =
    NoFilePassed
  | TTYUnsupported
  | CouldntOpen string
  | CouldntReadHeader
  | InvalidMagic u32
  | TooSmallBuffer nat nat
  | InvalidImageSize u32
  | CouldntReadMeta nat
  | CouldntWrite nat
  | FailedWriteMeta
  | FailedAppendZeros
  | FailedAppendFile string
  | CantPad nat int
  | CouldntWriteHeader
  | CouldntExtractWhole int nat
  | NoEntitySpecified

section \<open>Create: the entity builder\<close>

text \<open>The environment of a run: the files that can be opened for reading, with their
  contents; what \<open>stdin\<close> is; the largest block \<open>malloc\<close> grants; and, for a path
  opened for writing, whether it can be opened and how many bytes its device holds.\<close>

record env =
  files :: "(string \<times> byte list) list"
  stdin_tty :: bool
  stdin_seekable :: bool
  stdin_data :: "byte list"
  mem_limit :: nat
  out_files :: "(string \<times> nat) list"
  stdout_cap :: nat

definition fopen_r :: "env \<Rightarrow> string \<Rightarrow> FILE option" where
  "fopen_r e path =
     (case map_of (files e) path of
        None \<Rightarrow> None
      | Some bs \<Rightarrow> Some \<lparr>fdata = bs, fpos = 0, fseekable = True, fcap = length bs\<rparr>)"

definition fopen_w :: "env \<Rightarrow> string \<Rightarrow> FILE option" where
  "fopen_w e path =
     (case map_of (out_files e) path of
        None \<Rightarrow> None
      | Some cap \<Rightarrow> Some \<lparr>fdata = [], fpos = 0, fseekable = True, fcap = cap\<rparr>)"

text \<open>\<open>oseama_entity_append_zeros\<close>: the result is the \<open>ssize_t\<close> it returns, the
  stream and the diagnostics. \<open>malloc\<close> fails for a block larger than \<open>mem_limit\<close>;
  \<open>malloc(0)\<close> gives a pointer, as in glibc.\<close>

definition oseama_entity_append_zeros :: "env \<Rightarrow> FILE \<Rightarrow> nat \<Rightarrow> int \<times> FILE \<times> diag list" where
  "oseama_entity_append_zeros e seama len =
     (if mem_limit e < len then (- ENOMEM, seama, [])
      else (let (n, seama') = fwrite (replicate len 0) seama
            in if n \<noteq> len then (- EIO, seama', [CouldntWrite len])
               else (int len, seama', [])))"

text \<open>\<open>oseama_entity_align\<close>, for an alignment of at least 1 (the builder passes 4).
  With alignment 0 the C code masks with \<open>SIZE_MAX\<close> and divides by zero, which this
  definition does not show.\<close>

definition oseama_entity_align :: "env \<Rightarrow> FILE \<Rightarrow> nat \<Rightarrow> nat \<Rightarrow> int \<times> FILE \<times> diag list" where
  "oseama_entity_align e seama curr_offset alignment =
     (if curr_offset AND (alignment - 1) \<noteq> 0
      then (let len = alignment - (curr_offset mod alignment)
            in oseama_entity_append_zeros e seama len)
      else (0, seama, []))"


text \<open>The command line after \<open>getopt\<close>: \<open>-m meta\<close> with the bytes of the string
  (without its terminator), \<open>-f file\<close> with the path, \<open>-b offset\<close> with what
  \<open>strtol\<close> returns for the argument.\<close>

datatype opt = OptM "byte list" | OptF string | OptB int

function append_file_loop :: "FILE \<Rightarrow> FILE \<Rightarrow> int \<Rightarrow> int \<times> FILE \<times> diag list" where
  "append_file_loop inp seama len =
     (let (buf, inp') = fread 128 inp
      in if 0 < length buf
         then (let (n, seama') = fwrite buf seama
               in if n \<noteq> length buf then (- EIO, seama', [CouldntWrite (length buf)])
                  else append_file_loop inp' seama' (len + int (length buf)))
         else (len, seama, []))"
  by pat_completeness auto
termination
  by (relation "measure (\<lambda>(inp, seama, len). length (fdata inp) - fpos inp)")
     (auto simp: fread_def Let_def)

declare append_file_loop.simps [simp del]

definition oseama_entity_append_file :: "env \<Rightarrow> FILE \<Rightarrow> string \<Rightarrow> int \<times> FILE \<times> diag list" where
  "oseama_entity_append_file e seama in_path =
     (case fopen_r e in_path of
        None \<Rightarrow> (- EACCES, seama, [CouldntOpen in_path])
      | Some inp \<Rightarrow> append_file_loop inp seama 0)"

text \<open>The loop of \<open>oseama_entity_write_hdr\<close> that feeds the digest: \<open>ctx\<close> is the
  sequence of bytes given to \<open>MD5_Update\<close> so far, \<open>len\<close> the bytes still wanted.\<close>

function md5_read_loop :: "FILE \<Rightarrow> nat \<Rightarrow> byte list \<Rightarrow> byte list \<times> nat \<times> FILE" where
  "md5_read_loop seama len ctx =
     (let (buf, seama') = fread (oseama_min 128 len) seama
      in if 0 < length buf then md5_read_loop seama' (len - length buf) (ctx @ buf)
         else (ctx, len, seama'))"
  by pat_completeness auto
termination
  by (relation "measure (\<lambda>(seama, len, ctx). len)")
     (auto simp: fread_def Let_def oseama_min_def split: if_splits)

declare md5_read_loop.simps [simp del]

text \<open>The 16 bytes of a digest, first byte first.\<close>

definition digest_bytes :: "128 word \<Rightarrow> byte list" where
  "digest_bytes d = map (\<lambda>i. ucast (drop_bit (8 * (15 - i)) d)) [0..<16]"

text \<open>\<open>md5.h\<close> is not part of the sources: the digest primitive is the parameter
  \<open>md5\<close>, the value \<open>MD5_Final\<close> gives for the bytes fed since \<open>MD5_Init\<close>.\<close>

definition oseama_entity_write_hdr ::
  "(byte list \<Rightarrow> 128 word) \<Rightarrow> FILE \<Rightarrow> nat \<Rightarrow> nat \<Rightarrow> int \<times> FILE \<times> diag list" where
  "oseama_entity_write_hdr md5 seama metasize imagesize =
     (let (r1, seama1) = fseek_set seama (ENTITY_HDR_SIZE + metasize);
          (ctx, len, seama2) = md5_read_loop seama1 imagesize [];
          hdr = cpu_to_be32 SEAMA_MAGIC @ [0, 0] @ cpu_to_be16 (of_nat metasize)
                @ cpu_to_be32 (of_nat imagesize) @ digest_bytes (md5 ctx);
          (r2, seama3) = fseek_set seama2 0;
          (bytes, seama4) = fwrite hdr seama3
      in if bytes \<noteq> ENTITY_HDR_SIZE then (- EIO, seama4, [CouldntWriteHeader])
         else (0, seama4, []))"

text \<open>The local variables of \<open>oseama_entity\<close>, with the stream and stderr.\<close>

record build_state =
  b_seama :: FILE
  b_curr_offset :: nat
  b_metasize :: nat
  b_imagesize :: nat
  b_err :: int
  b_diags :: "diag list"

text \<open>The body of the first \<open>getopt\<close> loop.\<close>

definition entity_meta_opt :: "env \<Rightarrow> build_state \<Rightarrow> opt \<Rightarrow> build_state" where
  "entity_meta_opt e s c =
     (case c of
        OptM optarg \<Rightarrow>
          (let (n, seama1) = fwrite (optarg @ [0]) (b_seama s);
               sbytes = int n;
               s1 = (if sbytes < 0
                     then s\<lparr>b_seama := seama1, b_diags := b_diags s @ [FailedWriteMeta]\<rparr>
                     else s\<lparr>b_seama := seama1,
                            b_curr_offset := b_curr_offset s + nat sbytes,
                            b_metasize := b_metasize s + nat sbytes\<rparr>);
               (sbytes2, seama2, ds) = oseama_entity_align e (b_seama s1) (b_curr_offset s1) 4
           in if sbytes2 < 0
              then s1\<lparr>b_seama := seama2, b_diags := b_diags s1 @ ds @ [FailedAppendZeros]\<rparr>
              else s1\<lparr>b_seama := seama2,
                      b_curr_offset := b_curr_offset s1 + nat sbytes2,
                      b_metasize := b_metasize s1 + nat sbytes2,
                      b_diags := b_diags s1 @ ds\<rparr>)
      | OptF in_path \<Rightarrow> s
      | OptB target \<Rightarrow> s)"

fun entity_meta_pass :: "env \<Rightarrow> build_state \<Rightarrow> opt list \<Rightarrow> build_state" where
  "entity_meta_pass e s [] = s"
| "entity_meta_pass e s (c # cs) = entity_meta_pass e (entity_meta_opt e s c) cs"

text \<open>The body of the second \<open>getopt\<close> loop. \<open>sbytes\<close> of \<open>-b\<close> is the difference of
  a \<open>long\<close> and a \<open>size_t\<close> stored in an \<open>ssize_t\<close>: the difference modulo \<open>2^64\<close>,
  read as a signed number.\<close>

definition entity_image_opt :: "env \<Rightarrow> build_state \<Rightarrow> opt \<Rightarrow> build_state" where
  "entity_image_opt e s c =
     (case c of
        OptM optarg \<Rightarrow> s
      | OptF in_path \<Rightarrow>
          (let (sbytes, seama1, ds) = oseama_entity_append_file e (b_seama s) in_path
           in if sbytes < 0
              then s\<lparr>b_seama := seama1, b_diags := b_diags s @ ds @ [FailedAppendFile in_path]\<rparr>
              else s\<lparr>b_seama := seama1,
                     b_curr_offset := b_curr_offset s + nat sbytes,
                     b_imagesize := b_imagesize s + nat sbytes,
                     b_diags := b_diags s @ ds\<rparr>)
      | OptB target \<Rightarrow>
          (let sbytes = signed_take_bit 63 (target - int (b_curr_offset s))
           in if sbytes < 0
              then s\<lparr>b_diags := b_diags s @ [CantPad (b_curr_offset s) target]\<rparr>
              else (let (sbytes2, seama1, ds) = oseama_entity_append_zeros e (b_seama s) (nat sbytes)
                    in if sbytes2 < 0
                       then s\<lparr>b_seama := seama1, b_diags := b_diags s @ ds @ [FailedAppendZeros]\<rparr>
                       else s\<lparr>b_seama := seama1,
                              b_curr_offset := b_curr_offset s + nat sbytes2,
                              b_imagesize := b_imagesize s + nat sbytes2,
                              b_diags := b_diags s @ ds\<rparr>)))"

fun entity_image_pass :: "env \<Rightarrow> build_state \<Rightarrow> opt list \<Rightarrow> build_state" where
  "entity_image_pass e s [] = s"
| "entity_image_pass e s (c # cs) =
     (let s' = entity_image_opt e s c
      in if b_err s' \<noteq> 0 then s' else entity_image_pass e s' cs)"

text \<open>\<open>oseama_entity\<close>: \<open>argv2\<close> is the path argument (\<open>None\<close> when \<open>argc < 3\<close>). The
  result is the status, the file as it is at \<open>fclose\<close>, and stderr.\<close>

definition oseama_entity ::
  "env \<Rightarrow> (byte list \<Rightarrow> 128 word) \<Rightarrow> string option \<Rightarrow> opt list \<Rightarrow> int \<times> FILE option \<times> diag list" where
  "oseama_entity e md5 argv2 opts =
     (case argv2 of
        None \<Rightarrow> (- EINVAL, None, [NoFilePassed])
      | Some seama_path \<Rightarrow>
          (case fopen_w e seama_path of
             None \<Rightarrow> (- EACCES, None, [CouldntOpen seama_path])
           | Some seama0 \<Rightarrow>
               (let (r, seama1) = fseek_set seama0 ENTITY_HDR_SIZE;
                    s0 = \<lparr>b_seama = seama1, b_curr_offset = ENTITY_HDR_SIZE, b_metasize = 0,
                          b_imagesize = 0, b_err = 0, b_diags = []\<rparr>;
                    s1 = entity_meta_pass e s0 opts;
                    s2 = entity_image_pass e s1 opts;
                    (r3, seama3, ds) = oseama_entity_write_hdr md5 (b_seama s2) (b_metasize s2) (b_imagesize s2)
                in (b_err s2, Some seama3, b_diags s2 @ ds))))"


section \<open>Helpers\<close>

text \<open>\<open>oseama_open\<close>: a path other than \<open>-\<close> is opened as a file; \<open>-\<close> is
  \<open>stdin\<close>, refused when it is a terminal.\<close>

definition oseama_open :: "env \<Rightarrow> string \<Rightarrow> FILE option \<times> diag list" where
  "oseama_open e pathname =
     (if pathname \<noteq> ''-'' then (fopen_r e pathname, [])
      else if stdin_tty e then (None, [TTYUnsupported])
      else (Some \<lparr>fdata = stdin_data e, fpos = 0, fseekable = stdin_seekable e,
                   fcap = length (stdin_data e)\<rparr>, []))"

text \<open>The \<open>do ... while (length)\<close> loop of \<open>oseama_skip\<close>, entered when \<open>fseek\<close> fails.\<close>

function skip_read_loop :: "FILE \<Rightarrow> nat \<Rightarrow> int \<times> FILE" where
  "skip_read_loop fp len =
     (let (buf, fp') = fread (oseama_min 1024 len) fp;
          bytes = length buf
      in if bytes \<le> 0 then (- EIO, fp')
         else if len - bytes \<noteq> 0 then skip_read_loop fp' (len - bytes)
         else (0, fp'))"
  by pat_completeness auto
termination
  by (relation "measure (\<lambda>(fp, len). len)")
     (auto simp: fread_def Let_def oseama_min_def split: if_splits)

declare skip_read_loop.simps [simp del]

definition oseama_skip :: "FILE \<Rightarrow> nat \<Rightarrow> int \<times> FILE" where
  "oseama_skip fp len =
     (let (r, fp1) = fseek_cur fp len
      in if r \<noteq> 0 then skip_read_loop fp1 len else (0, fp1))"


lemma fread_eq:
  assumes "fread n fp = (bs, fp')"
  shows "fdata fp' = fdata fp" and "fpos fp' = fpos fp + length bs"
    and "length bs = min n (length (fdata fp) - fpos fp)"
    and "bs = take n (drop (fpos fp) (fdata fp))"
  using assms by (auto simp: fread_def Let_def)

lemma skip_read_loop_inv:
  "skip_read_loop fp len = (r, fp') \<Longrightarrow> fdata fp' = fdata fp \<and> fpos fp \<le> fpos fp'"
proof (induction fp len arbitrary: r fp' rule: skip_read_loop.induct)
  case (1 fp len)
  obtain buf fp1 where f: "fread (oseama_min 1024 len) fp = (buf, fp1)"
    by (cases "fread (oseama_min 1024 len) fp") auto
  note fr = fread_eq [OF f]
  show ?case
  proof (cases "buf \<noteq> [] \<and> len - length buf \<noteq> 0")
    case True
    then have "skip_read_loop fp1 (len - length buf) = (r, fp')"
      using "1.prems" f by (subst (asm) skip_read_loop.simps) (simp add: Let_def)
    from "1.IH" [OF f [symmetric] refl refl _ _ this] True
    have "fdata fp' = fdata fp1 \<and> fpos fp1 \<le> fpos fp'" by simp
    then show ?thesis using fr by simp
  next
    case False
    then have "fp' = fp1"
      using "1.prems" f by (subst (asm) skip_read_loop.simps) (auto simp: Let_def split: if_splits)
    then show ?thesis using fr by simp
  qed
qed

lemma oseama_skip_inv:
  assumes "oseama_skip fp len = (r, fp')"
  shows "fdata fp' = fdata fp" and "fpos fp \<le> fpos fp'"
  using assms skip_read_loop_inv [of fp len r fp']
  by (auto simp: oseama_skip_def fseek_cur_def split: if_splits)

section \<open>Info\<close>

text \<open>What \<open>oseama info\<close> prints on stdout, one constructor for each \<open>printf\<close>.\<close>

datatype out_line =
    Blank
  | EntityOffset nat
  | EntitySize nat
  | MetaSize nat
  | ImageSize nat
  | MetaEntry "byte list"

text \<open>The metadata buffer \<open>buf\<close> is modelled by the bytes \<open>fread\<close> has stored in it,
  from index 0. An access at any other index is a fault: below 0 it is outside the array,
  from the number of bytes read on it is outside what the program has initialised.\<close>

datatype fault = OutOfBounds int

definition buf_store :: "byte list \<Rightarrow> int \<Rightarrow> byte \<Rightarrow> fault + byte list" where
  "buf_store buf i v =
     (if 0 \<le> i \<and> i < int (length buf) then Inr (buf[nat i := v]) else Inl (OutOfBounds i))"

text \<open>\<open>strlen(tmp)\<close> for \<open>tmp = buf + t\<close>: the number of bytes before the first NUL at or
  after index \<open>t\<close>; a fault when there is none in the buffer.\<close>

definition strlen :: "byte list \<Rightarrow> nat \<Rightarrow> fault + nat" where
  "strlen buf t =
     (if 0 \<in> set (drop t buf) then Inr (length (takeWhile (\<lambda>b. b \<noteq> 0) (drop t buf)))
      else Inl (OutOfBounds (int (length buf))))"

text \<open>The \<open>for\<close> loop that prints the entries: \<open>endp\<close> and \<open>tmp\<close> are the indices of
  the pointers \<open>end\<close> and \<open>tmp\<close>, \<open>out\<close> the lines printed so far.\<close>

function meta_entries_loop :: "byte list \<Rightarrow> nat \<Rightarrow> nat \<Rightarrow> out_line list \<Rightarrow> fault + out_line list" where
  "meta_entries_loop buf endp tmp out =
     (if tmp < endp
      then (case strlen buf tmp of
              Inl f \<Rightarrow> Inl f
            | Inr n \<Rightarrow>
                if n \<noteq> 0
                then meta_entries_loop buf endp (tmp + n + 1) (out @ [MetaEntry (take n (drop tmp buf))])
                else Inr out)
      else Inr out)"
  by pat_completeness auto
termination
  by (relation "measure (\<lambda>(buf, endp, tmp, out). endp - tmp)") auto

declare meta_entries_loop.simps [simp del]

text \<open>The decoding of a metadata block, as both \<open>oseama_info\<close> and
  \<open>oseama_info_entities\<close> have it: \<open>end = &buf[metasize - 1]; *end = 0\<close>, then the loop.\<close>

definition print_meta_entries :: "byte list \<Rightarrow> nat \<Rightarrow> out_line list \<Rightarrow> fault + out_line list" where
  "print_meta_entries buf metasize out =
     (case buf_store buf (int metasize - 1) 0 of
        Inl f \<Rightarrow> Inl f
      | Inr buf' \<Rightarrow> meta_entries_loop buf' (metasize - 1) 0 out)"

text \<open>\<open>oseama_info_entities\<close>, with the global \<open>entity_idx\<close> as a parameter; \<open>pos\<close> is
  \<open>*pos\<close>, \<open>i\<close> the counter, \<open>out\<close> stdout so far. The result is \<open>err\<close>, the stream,
  \<open>*pos\<close>, stdout and stderr, or the fault of the decoding.\<close>

function oseama_info_entities ::
  "int \<Rightarrow> FILE \<Rightarrow> nat \<Rightarrow> int \<Rightarrow> out_line list
     \<Rightarrow> fault + (int \<times> FILE \<times> nat \<times> out_line list \<times> diag list)" where
  "oseama_info_entities entity_idx seama pos i out =
     (let (hdr, seama1) = fread ENTITY_HDR_SIZE seama
      in if length hdr = ENTITY_HDR_SIZE
         then
           (let pos1 = pos + length hdr
            in if hdr_magic hdr \<noteq> SEAMA_MAGIC
               then Inr (- EINVAL, seama1, pos1, out, [InvalidMagic (hdr_magic hdr)])
               else
                 (let metasize = unat (hdr_metasize hdr);
                      imagesize = unat (hdr_imagesize hdr)
                  in if 0 \<le> entity_idx \<and> i \<noteq> entity_idx
                     then
                       (let (r, seama2) = oseama_skip seama1 (metasize + imagesize)
                        in oseama_info_entities entity_idx seama2 (pos1 + (metasize + imagesize)) (i + 1) out)
                     else if META_BUF_SIZE \<le> metasize
                     then Inr (- EINVAL, seama1, pos1, out, [TooSmallBuffer META_BUF_SIZE metasize])
                     else
                       (let out1 = out @ (if entity_idx < 0 then [Blank] else [])
                                   @ [EntityOffset (pos1 - ENTITY_HDR_SIZE),
                                      EntitySize (ENTITY_HDR_SIZE + metasize + imagesize),
                                      MetaSize metasize, ImageSize imagesize];
                            (buf, seama2) = fread metasize seama1
                        in if length buf \<noteq> metasize
                           then Inr (- EIO, seama2, pos1, out1, [CouldntReadMeta metasize])
                           else
                             (case print_meta_entries buf metasize out1 of
                                Inl f \<Rightarrow> Inl f
                              | Inr out2 \<Rightarrow>
                                  (let (r, seama3) = oseama_skip seama2 imagesize
                                   in oseama_info_entities entity_idx seama3
                                        (pos1 + length buf + imagesize) (i + 1) out2)))))
         else Inr (0, seama1, pos, out, []))"
  by pat_completeness auto

termination
proof (relation "measure (\<lambda>(entity_idx, seama, pos, i, out). length (fdata seama) - fpos seama)",
    goal_cases)
  case 1
  show ?case by simp
next
  case (2 entity_idx seama pos i out x hdr seama1 pos1 metasize imagesize y r seama2)
  note fr = fread_eq [OF \<open>(hdr, seama1) = x\<close> [unfolded \<open>x = _\<close>, symmetric]]
  note sk = oseama_skip_inv [OF \<open>(r, seama2) = y\<close> [unfolded \<open>y = _\<close>, symmetric]]
  show ?case using fr sk \<open>length hdr = ENTITY_HDR_SIZE\<close>
    by (simp add: ENTITY_HDR_SIZE_def)
next
  case (3 entity_idx seama pos i out x hdr seama1 pos1 metasize imagesize out1 y buf seama2 out2 z r seama3)
  note fr = fread_eq [OF \<open>(hdr, seama1) = x\<close> [unfolded \<open>x = _\<close>, symmetric]]
  note fr2 = fread_eq [OF \<open>(buf, seama2) = y\<close> [unfolded \<open>y = _\<close>, symmetric]]
  note sk = oseama_skip_inv [OF \<open>(r, seama3) = z\<close> [unfolded \<open>z = _\<close>, symmetric]]
  show ?case using fr fr2(1,2) sk \<open>length hdr = ENTITY_HDR_SIZE\<close>
    by (simp add: ENTITY_HDR_SIZE_def)
qed

declare oseama_info_entities.simps [simp del]

text \<open>\<open>oseama_info\<close>: \<open>argv2\<close> is the path argument (\<open>None\<close> when \<open>argc < 3\<close>),
  \<open>entity_idx\<close> the global after the options are parsed (\<open>-1\<close> without \<open>-e\<close>). The
  result is the status returned, stdout and stderr, or the fault of the decoding.\<close>

definition oseama_info ::
  "env \<Rightarrow> string option \<Rightarrow> int \<Rightarrow> fault + (int \<times> out_line list \<times> diag list)" where
  "oseama_info e argv2 entity_idx =
     (case argv2 of
        None \<Rightarrow> Inr (- EINVAL, [], [NoFilePassed])
      | Some seama_path \<Rightarrow>
          (case oseama_open e seama_path of
             (None, ds) \<Rightarrow> Inr (- EACCES, [], ds @ [CouldntOpen seama_path])
           | (Some seama, ds) \<Rightarrow>
               (let (hdr, seama1) = fread SEAL_HDR_SIZE seama
                in if length hdr \<noteq> SEAL_HDR_SIZE then Inr (- EIO, [], ds @ [CouldntReadHeader])
                   else
                     (let pos = length hdr;
                          metasize = hdr_metasize hdr;
                          imagesize = hdr_imagesize hdr
                      in if hdr_magic hdr \<noteq> SEAMA_MAGIC
                         then Inr (- EINVAL, [], ds @ [InvalidMagic (hdr_magic hdr)])
                         else if META_BUF_SIZE \<le> unat metasize
                         then Inr (- EINVAL, [], ds @ [TooSmallBuffer META_BUF_SIZE (unat metasize)])
                         else if imagesize \<noteq> 0
                         then Inr (- EINVAL, [], ds @ [InvalidImageSize imagesize])
                         else
                           (let (buf, seama2) = fread (unat metasize) seama1
                            in if length buf \<noteq> unat metasize
                               then Inr (- EIO, [], ds @ [CouldntReadMeta (unat metasize)])
                               else
                                 (case (if entity_idx < 0
                                        then print_meta_entries buf (unat metasize)
                                               [MetaSize (unat metasize), ImageSize (unat imagesize)]
                                        else Inr []) of
                                    Inl f \<Rightarrow> Inl f
                                  | Inr out \<Rightarrow>
                                      (case oseama_info_entities entity_idx seama2 (pos + length buf) 0 out of
                                         Inl f \<Rightarrow> Inl f
                                       | Inr (r, seama3, pos3, out3, ds3) \<Rightarrow> Inr (0, out3, ds @ ds3))))))))"

section \<open>Extract\<close>

text \<open>The copy loop of \<open>oseama_extract_entity\<close>: the result is \<open>err\<close>, both streams, the
  bytes still to copy and stderr.\<close>

function extract_copy_loop ::
  "FILE \<Rightarrow> FILE \<Rightarrow> nat \<Rightarrow> int \<times> FILE \<times> FILE \<times> nat \<times> diag list" where
  "extract_copy_loop seama out len =
     (let (buf, seama1) = fread (oseama_min 1024 len) seama
      in if 0 < length buf
         then (let (n, out1) = fwrite buf out
               in if n \<noteq> length buf then (- EIO, seama1, out1, len, [CouldntWrite (length buf)])
                  else extract_copy_loop seama1 out1 (len - length buf))
         else (0, seama1, out, len, []))"
  by pat_completeness auto
termination
  by (relation "measure (\<lambda>(seama, out, len). len)")
     (auto simp: fread_def Let_def oseama_min_def split: if_splits)

declare extract_copy_loop.simps [simp del]

text \<open>\<open>oseama_extract_entity\<close>, with the global \<open>entity_idx\<close> as a parameter and the
  counter \<open>i\<close>. The result is \<open>err\<close>, both streams and stderr.\<close>

function oseama_extract_entity ::
  "int \<Rightarrow> FILE \<Rightarrow> FILE \<Rightarrow> int \<Rightarrow> int \<times> FILE \<times> FILE \<times> diag list" where
  "oseama_extract_entity entity_idx seama out i =
     (let (hdr, seama1) = fread ENTITY_HDR_SIZE seama
      in if length hdr = ENTITY_HDR_SIZE
         then
           (if hdr_magic hdr \<noteq> SEAMA_MAGIC
            then (- EINVAL, seama1, out, [InvalidMagic (hdr_magic hdr)])
            else
              (let metasize = unat (hdr_metasize hdr);
                   imagesize = unat (hdr_imagesize hdr)
               in if i \<noteq> entity_idx
                  then
                    (let (r, seama2) = oseama_skip seama1 (metasize + imagesize)
                     in oseama_extract_entity entity_idx seama2 out (i + 1))
                  else
                    (let (n, out1) = fwrite hdr out
                     in if n \<noteq> ENTITY_HDR_SIZE
                        then (- EIO, seama1, out1, [CouldntWrite ENTITY_HDR_SIZE])
                        else
                          (let (err, seama2, out2, len, ds) =
                                 extract_copy_loop seama1 out1 (metasize + imagesize)
                           in if len \<noteq> 0
                              then (- EIO, seama2, out2, ds @ [CouldntExtractWhole entity_idx len])
                              else (err, seama2, out2, ds)))))
         else (0, seama1, out, []))"
  by pat_completeness auto
termination
proof (relation "measure (\<lambda>(entity_idx, seama, out, i). length (fdata seama) - fpos seama)",
    goal_cases)
  case 1
  show ?case by simp
next
  case (2 entity_idx seama out i x hdr seama1 metasize imagesize y r seama2)
  note fr = fread_eq [OF \<open>(hdr, seama1) = x\<close> [unfolded \<open>x = _\<close>, symmetric]]
  note sk = oseama_skip_inv [OF \<open>(r, seama2) = y\<close> [unfolded \<open>y = _\<close>, symmetric]]
  show ?case using fr sk \<open>length hdr = ENTITY_HDR_SIZE\<close>
    by (simp add: ENTITY_HDR_SIZE_def)
qed

declare oseama_extract_entity.simps [simp del]

text \<open>The destination of \<open>oseama_extract\<close>: the file \<open>out_path\<close> opened for writing,
  \<open>stdout\<close> when there is no \<open>-o\<close>.\<close>

definition extract_open_out :: "env \<Rightarrow> string option \<Rightarrow> FILE option \<times> diag list" where
  "extract_open_out e out_path =
     (case out_path of
        None \<Rightarrow> (Some \<lparr>fdata = [], fpos = 0, fseekable = False, fcap = stdout_cap e\<rparr>, [])
      | Some p \<Rightarrow>
          (case fopen_w e p of
             None \<Rightarrow> (None, [CouldntOpen p])
           | Some out \<Rightarrow> (Some out, [])))"

text \<open>\<open>oseama_extract\<close>: \<open>argv2\<close> is the path argument, \<open>entity_idx\<close> and \<open>out_path\<close>
  the globals after the options are parsed. The result is the status returned, the
  destination stream as it is left (\<open>None\<close> when none was opened) and stderr.\<close>

definition oseama_extract ::
  "env \<Rightarrow> string option \<Rightarrow> int \<Rightarrow> string option \<Rightarrow> int \<times> FILE option \<times> diag list" where
  "oseama_extract e argv2 entity_idx out_path =
     (case argv2 of
        None \<Rightarrow> (- EINVAL, None, [NoFilePassed])
      | Some seama_path \<Rightarrow>
          if entity_idx < 0 then (- EINVAL, None, [NoEntitySpecified])
          else
            (case oseama_open e seama_path of
               (None, ds) \<Rightarrow> (- EACCES, None, ds @ [CouldntOpen seama_path])
             | (Some seama, ds) \<Rightarrow>
                 (case extract_open_out e out_path of
                    (None, ds1) \<Rightarrow> (- EACCES, None, ds @ ds1)
                  | (Some out, ds1) \<Rightarrow>
                      (let (hdr, seama1) = fread SEAL_HDR_SIZE seama
                       in if length hdr \<noteq> SEAL_HDR_SIZE
                          then (- EIO, Some out, ds @ ds1 @ [CouldntReadHeader])
                          else
                            (let metasize = hdr_metasize hdr;
                                 (r, seama2) = oseama_skip seama1 (unat metasize);
                                 (r', seama3, out', ds') = oseama_extract_entity entity_idx seama2 out 0
                             in (0, Some out', ds @ ds1 @ ds'))))))"

section \<open>Containers on the wire\<close>

text \<open>The layout the two header structs give a container: a seal header of 12 bytes, its
  metadata, then the entities, each a header of 28 bytes (the fields of the seal header and
  16 bytes of digest), its metadata and its image. \<open>entity_bytes\<close> and \<open>container\<close>
  describe inputs of the tool; the tool itself never builds a seal.\<close>

record entity =
  e_md5 :: "byte list"
  e_meta :: "byte list"
  e_image :: "byte list"

definition entity_hdr :: "entity \<Rightarrow> byte list" where
  "entity_hdr en =
     cpu_to_be32 SEAMA_MAGIC @ [0, 0] @ cpu_to_be16 (of_nat (length (e_meta en)))
     @ cpu_to_be32 (of_nat (length (e_image en))) @ e_md5 en"

definition entity_bytes :: "entity \<Rightarrow> byte list" where
  "entity_bytes en = entity_hdr en @ e_meta en @ e_image en"

definition wf_entity :: "entity \<Rightarrow> bool" where
  "wf_entity en =
     (length (e_md5 en) = 16 \<and> length (e_meta en) < 2 ^ 16 \<and> length (e_image en) < 2 ^ 32)"

definition seal_hdr :: "nat \<Rightarrow> byte list" where
  "seal_hdr metasize =
     cpu_to_be32 SEAMA_MAGIC @ [0, 0] @ cpu_to_be16 (of_nat metasize) @ cpu_to_be32 0"

definition container :: "byte list \<Rightarrow> entity list \<Rightarrow> byte list" where
  "container smeta es = seal_hdr (length smeta) @ smeta @ concat (map entity_bytes es)"


section \<open>Properties of the streams and of the byte order\<close>

lemma fread_short:
  "length (fdata fp) - fpos fp < n \<Longrightarrow>
   fread n fp = (drop (fpos fp) (fdata fp), fp\<lparr>fpos := fpos fp + (length (fdata fp) - fpos fp)\<rparr>)"
  by (simp add: fread_def Let_def)

lemma fread_full:
  "n \<le> length (fdata fp) - fpos fp \<Longrightarrow>
   fread n fp = (take n (drop (fpos fp) (fdata fp)), fp\<lparr>fpos := fpos fp + n\<rparr>)"
  by (simp add: fread_def Let_def)

lemma be32_roundtrip:
  "be32_to_cpu (ucast (drop_bit 24 x)) (ucast (drop_bit 16 x)) (ucast (drop_bit 8 x)) (ucast x) = (x::u32)"
  unfolding be32_to_cpu_def
proof (rule bit_word_eqI)
  fix n :: nat
  assume "n < LENGTH(32)"
  then consider "n < 8" | "8 \<le> n" "n < 16" | "16 \<le> n" "n < 24" | "24 \<le> n" "n < 32"
    by force
  then show "bit (push_bit 24 (ucast (ucast (drop_bit 24 x) :: byte)) OR
                  push_bit 16 (ucast (ucast (drop_bit 16 x) :: byte)) OR
                  push_bit 8 (ucast (ucast (drop_bit 8 x) :: byte)) OR
                  ucast (ucast x :: byte) :: u32) n = bit x n"
    by cases (auto simp: bit_simps)
qed

lemma be16_roundtrip:
  "be16_to_cpu (ucast (drop_bit 8 x)) (ucast x) = (x::u16)"
  unfolding be16_to_cpu_def
proof (rule bit_word_eqI)
  fix n :: nat
  assume "n < LENGTH(16)"
  then consider "n < 8" | "8 \<le> n" "n < 16"
    by force
  then show "bit (push_bit 8 (ucast (ucast (drop_bit 8 x) :: byte)) OR
                  ucast (ucast x :: byte) :: u16) n = bit x n"
    by cases (auto simp: bit_simps)
qed

lemma length_cpu_to_be32 [simp]: "length (cpu_to_be32 x) = 4"
  by (simp add: cpu_to_be32_def)

lemma length_cpu_to_be16 [simp]: "length (cpu_to_be16 x) = 2"
  by (simp add: cpu_to_be16_def)

lemma hdr_fields:
  "hdr_magic (cpu_to_be32 m @ r0 # r1 # cpu_to_be16 ms @ cpu_to_be32 im @ rest) = m"
  "hdr_metasize (cpu_to_be32 m @ r0 # r1 # cpu_to_be16 ms @ cpu_to_be32 im @ rest) = ms"
  "hdr_imagesize (cpu_to_be32 m @ r0 # r1 # cpu_to_be16 ms @ cpu_to_be32 im @ rest) = im"
  by (simp_all add: hdr_magic_def hdr_metasize_def hdr_imagesize_def cpu_to_be32_def cpu_to_be16_def
      be32_roundtrip be16_roundtrip)

lemma skip_read_loop_enough:
  "len \<le> length (fdata fp) - fpos fp \<Longrightarrow> snd (skip_read_loop fp len) = fp\<lparr>fpos := fpos fp + len\<rparr>"
proof (induction fp len rule: skip_read_loop.induct)
  case (1 fp len)
  let ?k = "oseama_min 1024 len"
  have k: "?k \<le> length (fdata fp) - fpos fp" "?k \<le> len" "len \<noteq> 0 \<Longrightarrow> ?k \<noteq> 0"
    using "1.prems" by (auto simp: oseama_min_def)
  let ?buf = "take ?k (drop (fpos fp) (fdata fp))"
  let ?fp1 = "fp\<lparr>fpos := fpos fp + ?k\<rparr>"
  have f: "fread ?k fp = (?buf, ?fp1)" using k(1) by (rule fread_full)
  have lb: "length ?buf = ?k" using k(1) by simp
  have eq: "skip_read_loop fp len =
      (if ?buf = [] then (- EIO, ?fp1)
       else if len - length ?buf \<noteq> 0 then skip_read_loop ?fp1 (len - length ?buf)
       else (0, ?fp1))"
    by (subst skip_read_loop.simps) (simp only: f Let_def split_conv le_zero_eq length_0_conv)
  show ?case
  proof (cases "len = 0")
    case True
    then have k0: "?k = 0" using k(2) by simp
    have "skip_read_loop fp len = (- EIO, ?fp1)" by (subst eq) (simp add: k0)
    then show ?thesis using k0 True by simp
  next
    case False
    then have ne: "?buf \<noteq> []" using lb k(3) by (metis length_0_conv)
    show ?thesis
    proof (cases "len - ?k = 0")
      case True
      then have "?k = len" using k(2) by simp
      then show ?thesis using ne lb by (simp add: eq del: length_take)
    next
      case nz: False
      have "snd (skip_read_loop ?fp1 (len - length ?buf)) =
              ?fp1\<lparr>fpos := fpos ?fp1 + (len - length ?buf)\<rparr>"
      proof (rule "1.IH" [OF f [symmetric] refl refl])
        show "\<not> length ?buf \<le> 0" using ne by simp
        show "len - length ?buf \<noteq> 0" using nz lb by simp
        show "len - length ?buf \<le> length (fdata ?fp1) - fpos ?fp1"
          using "1.prems" lb k by simp
      qed
      then show ?thesis using nz ne k lb by (simp add: eq del: length_take)
    qed
  qed
qed

lemma oseama_skip_enough:
  "len \<le> length (fdata fp) - fpos fp \<Longrightarrow> snd (oseama_skip fp len) = fp\<lparr>fpos := fpos fp + len\<rparr>"
  by (simp add: oseama_skip_def fseek_cur_def skip_read_loop_enough)

lemma unat_of_nat_u16: "n < 2 ^ 16 \<Longrightarrow> unat (of_nat n :: u16) = n"
  by (simp add: unsigned_of_nat take_bit_nat_eq_self)

lemma unat_of_nat_u32: "n < 2 ^ 32 \<Longrightarrow> unat (of_nat n :: u32) = n"
  by (simp add: unsigned_of_nat take_bit_nat_eq_self)

lemma entity_hdr_fields:
  assumes "wf_entity en"
  shows "length (entity_hdr en) = ENTITY_HDR_SIZE"
    and "hdr_magic (entity_hdr en) = SEAMA_MAGIC"
    and "unat (hdr_metasize (entity_hdr en)) = length (e_meta en)"
    and "unat (hdr_imagesize (entity_hdr en)) = length (e_image en)"
  using assms
  by (simp_all add: entity_hdr_def wf_entity_def ENTITY_HDR_SIZE_def hdr_fields
      unat_of_nat_u16 unat_of_nat_u32)

lemma seal_hdr_fields:
  "length (seal_hdr n) = SEAL_HDR_SIZE"
  "hdr_magic (seal_hdr n) = SEAMA_MAGIC"
  "hdr_metasize (seal_hdr n) = of_nat n"
  "hdr_imagesize (seal_hdr n) = 0"
  using hdr_fields [of SEAMA_MAGIC 0 0 "of_nat n" 0 "[]"]
  by (simp_all add: seal_hdr_def SEAL_HDR_SIZE_def)

section \<open>Properties of the builder's writes\<close>

lemma and_pow2_minus_1: "(off::nat) AND (2 ^ k - 1) = off mod 2 ^ k"
proof -
  have "off AND mask k = take_bit k off" by (simp add: take_bit_eq_mask)
  then show ?thesis by (simp only: mask_eq_exp_minus_1 take_bit_eq_mod)
qed

lemma and_pow2_minus_Suc0: "(off::nat) AND (2 ^ k - Suc 0) = off mod 2 ^ k"
  using and_pow2_minus_1 [of off k] by simp

lemma fwrite_room:
  "fpos fp + length bs \<le> fcap fp \<Longrightarrow> bs \<noteq> [] \<Longrightarrow>
   fwrite bs fp = (length bs, fp\<lparr>fdata := take (fpos fp) (fdata fp @ replicate (fpos fp - length (fdata fp)) 0)
                              @ bs @ drop (fpos fp + length bs) (fdata fp),
                     fpos := fpos fp + length bs\<rparr>)"
  by (auto simp: fwrite_def Let_def min_def)

lemma fwrite_nil: "fwrite [] fp = (0, fp)"
  by (simp add: fwrite_def)

lemma append_zeros_room:
  assumes "len \<le> mem_limit e" and "fpos seama + len \<le> fcap seama" and "0 < len"
  shows "oseama_entity_append_zeros e seama len =
           (int len,
            seama\<lparr>fdata := take (fpos seama) (fdata seama @ replicate (fpos seama - length (fdata seama)) 0)
                              @ replicate len 0 @ drop (fpos seama + len) (fdata seama),
                     fpos := fpos seama + len\<rparr>,
            [])"
proof -
  have "fwrite (replicate len 0) seama =
      (len, seama\<lparr>fdata := take (fpos seama) (fdata seama @ replicate (fpos seama - length (fdata seama)) 0)
                              @ replicate len 0 @ drop (fpos seama + len) (fdata seama),
                     fpos := fpos seama + len\<rparr>)"
    using fwrite_room [of seama "replicate len 0"] assms by simp
  then show ?thesis using assms(1) by (simp add: oseama_entity_append_zeros_def)
qed


text \<open>
  C9. At every running offset \<open>off\<close>, the alignment step asks for exactly
  \<open>(alignment - off mod alignment) mod alignment\<close> zero bytes, for every alignment that
  is a power of two (the builder always passes 4): when \<open>off\<close> is already a multiple
  of the alignment it returns 0 and leaves the stream as it is, otherwise it writes that
  many zero bytes at the position of the stream and returns their number, provided
  \<open>malloc\<close> grants the block and the device has room for it.
\<close>

theorem align_pads:
  assumes "pad = (2 ^ k - off mod 2 ^ k) mod 2 ^ k"
    and "off mod 2 ^ k = 0 \<or> pad \<le> mem_limit e \<and> fpos seama + pad \<le> fcap seama"
  shows "oseama_entity_align e seama off (2 ^ k) =
           (int pad,
            (if off mod 2 ^ k = 0 then seama
             else seama\<lparr>fdata := take (fpos seama) (fdata seama @ replicate (fpos seama - length (fdata seama)) 0)
                              @ replicate pad 0 @ drop (fpos seama + pad) (fdata seama),
                     fpos := fpos seama + pad\<rparr>),
            [])"
proof (cases "off mod 2 ^ k = 0")
  case True
  then show ?thesis using assms(1) by (simp add: oseama_entity_align_def and_pow2_minus_Suc0)
next
  case False
  have lt: "off mod 2 ^ k < (2::nat) ^ k" by simp
  then have p: "pad = 2 ^ k - off mod 2 ^ k" "0 < pad" using False assms(1) by auto
  have room: "pad \<le> mem_limit e" "fpos seama + pad \<le> fcap seama" using False assms(2) by auto
  have "oseama_entity_align e seama off (2 ^ k) = oseama_entity_append_zeros e seama pad"
    using False p(1) by (simp add: oseama_entity_align_def and_pow2_minus_Suc0)
  then show ?thesis using False append_zeros_room [OF room p(2)] by simp
qed

theorem align_pads_witness:
  "oseama_entity_align \<lparr>files = [], stdin_tty = False, stdin_seekable = False, stdin_data = [], mem_limit = 100, out_files = [], stdout_cap = 0\<rparr>
      \<lparr>fdata = replicate 27 1, fpos = 27, fseekable = True, fcap = 100\<rparr> 27 4 =
   (1, \<lparr>fdata = replicate 27 1 @ [0], fpos = 28, fseekable = True, fcap = 100\<rparr>, []) \<and>
   oseama_entity_align \<lparr>files = [], stdin_tty = False, stdin_seekable = False, stdin_data = [], mem_limit = 0, out_files = [], stdout_cap = 0\<rparr>
      \<lparr>fdata = replicate 32 1, fpos = 32, fseekable = True, fcap = 32\<rparr> 32 4 =
   (0, \<lparr>fdata = replicate 32 1, fpos = 32, fseekable = True, fcap = 32\<rparr>, [])"
  using align_pads [of 1 2 27 "\<lparr>files = [], stdin_tty = False, stdin_seekable = False, stdin_data = [], mem_limit = 100, out_files = [], stdout_cap = 0\<rparr>"
      "\<lparr>fdata = replicate 27 1, fpos = 27, fseekable = True, fcap = 100\<rparr>"]
    align_pads [of 0 2 32 "\<lparr>files = [], stdin_tty = False, stdin_seekable = False, stdin_data = [], mem_limit = 0, out_files = [], stdout_cap = 0\<rparr>"
      "\<lparr>fdata = replicate 32 1, fpos = 32, fseekable = True, fcap = 32\<rparr>"]
  by simp

text \<open>
  C8. In every run of the builder, at every \<open>-b\<close> option whose target offset is less than
  the current running offset, the option is rejected with the diagnostic ``can't pad'' that
  shows both offsets, and nothing else changes: the stream (its bytes and its position) is
  as it was, and so are \<open>curr_offset\<close> and the sizes. The second hypothesis keeps the
  difference of the \<open>long\<close> and the \<open>size_t\<close> within an \<open>ssize_t\<close>: it holds for
  every target that is not negative, since an offset in a file is below \<open>2^63\<close>.
\<close>

theorem pad_backward_rejected:
  assumes "target < int (b_curr_offset s)"
    and "int (b_curr_offset s) - target \<le> 2 ^ 63"
  shows "entity_image_opt e s (OptB target) =
           s\<lparr>b_diags := b_diags s @ [CantPad (b_curr_offset s) target]\<rparr>"
proof -
  have "signed_take_bit 63 (target - int (b_curr_offset s)) = target - int (b_curr_offset s)"
    using assms by (intro signed_take_bit_int_eq_self) auto
  then show ?thesis using assms(1) by (simp add: entity_image_opt_def)
qed

theorem pad_backward_rejected_witness:
  "entity_image_opt
     \<lparr>files = [], stdin_tty = False, stdin_seekable = False, stdin_data = [],
        mem_limit = 0, out_files = [], stdout_cap = 0\<rparr>
     \<lparr>b_seama = \<lparr>fdata = replicate 28 0 @ [1, 2], fpos = 30, fseekable = True, fcap = 64\<rparr>,
      b_curr_offset = 30, b_metasize = 0, b_imagesize = 2, b_err = 0, b_diags = []\<rparr>
     (OptB 29) =
   \<lparr>b_seama = \<lparr>fdata = replicate 28 0 @ [1, 2], fpos = 30, fseekable = True, fcap = 64\<rparr>,
    b_curr_offset = 30, b_metasize = 0, b_imagesize = 2, b_err = 0, b_diags = [CantPad 30 29]\<rparr>"
  using pad_backward_rejected [of 29
      "\<lparr>b_seama = \<lparr>fdata = replicate 28 0 @ [1, 2], fpos = 30, fseekable = True, fcap = 64\<rparr>,
        b_curr_offset = 30, b_metasize = 0, b_imagesize = 2, b_err = 0, b_diags = []\<rparr>"
      "\<lparr>files = [], stdin_tty = False, stdin_seekable = False, stdin_data = [],
        mem_limit = 0, out_files = [], stdout_cap = 0\<rparr>"]
  by simp


subsection \<open>The digest of the payload\<close>

lemma min_chunk: "(k::nat) \<le> len \<Longrightarrow> min k r + min (len - min k r) (r - min k r) = min len r"
  by arith

lemma md5_read_loop_eq:
  "md5_read_loop seama len ctx =
     (ctx @ take len (drop (fpos seama) (fdata seama)),
      len - min len (length (fdata seama) - fpos seama),
      seama\<lparr>fpos := fpos seama + min len (length (fdata seama) - fpos seama)\<rparr>)"
proof (induction seama len ctx rule: md5_read_loop.induct)
  case (1 seama len ctx)
  define k where "k = oseama_min 128 len"
  define r where "r = length (fdata seama) - fpos seama"
  define xs where "xs = drop (fpos seama) (fdata seama)"
  define buf where "buf = take k xs"
  define j where "j = length buf"
  define s1 where "s1 = seama\<lparr>fpos := fpos seama + j\<rparr>"
  have f: "fread (oseama_min 128 len) seama = (buf, s1)"
    by (simp add: fread_def s1_def j_def buf_def xs_def k_def)
  have k: "k \<le> len" "len \<noteq> 0 \<Longrightarrow> k \<noteq> 0" by (auto simp: oseama_min_def k_def)
  have lx: "length xs = r" by (simp add: xs_def r_def)
  have j: "j = min k r" by (simp add: j_def buf_def lx)
  have eq: "md5_read_loop seama len ctx =
      (if 0 < length buf then md5_read_loop s1 (len - length buf) (ctx @ buf)
       else (ctx, len, s1))"
    by (subst md5_read_loop.simps) (simp only: f Let_def split_conv)
  show ?case
  proof (cases "0 < j")
    case False
    then have j0: "j = 0" by simp
    then have e: "len = 0 \<or> r = 0" using k(2) j by (auto simp: min_def split: if_splits)
    then have t: "take len xs = []" using lx by auto
    have m0: "min len r = 0" using e by auto
    have "md5_read_loop seama len ctx = (ctx, len, s1)"
      using j0 by (simp add: eq j_def)
    then show ?thesis
      using t m0 j0 by (simp add: s1_def xs_def [symmetric] r_def [symmetric])
  next
    case True
    have split_take: "take len xs = buf @ take (len - j) (drop j xs)"
    proof (cases "k \<le> r")
      case True
      then have "j = k" using j by simp
      then show ?thesis using k(1) unfolding buf_def
        by (metis le_add_diff_inverse take_add)
    next
      case False
      then have "buf = xs" "j = r" using lx j by (simp_all add: buf_def)
      then show ?thesis using False k(1) lx by simp
    qed
    have ih: "md5_read_loop s1 (len - length buf) (ctx @ buf) =
        ((ctx @ buf) @ take (len - length buf) (drop (fpos s1) (fdata s1)),
         (len - length buf) - min (len - length buf) (length (fdata s1) - fpos s1),
         s1\<lparr>fpos := fpos s1 + min (len - length buf) (length (fdata s1) - fpos s1)\<rparr>)"
      using True by (intro "1.IH" [OF f [symmetric] refl]) (simp add: j_def)
    have d: "drop (fpos s1) (fdata s1) = drop j xs"
      by (simp add: s1_def xs_def add.commute)
    have r1: "length (fdata s1) - fpos s1 = r - j" by (simp add: s1_def r_def)
    have m: "j + min (len - j) (r - j) = min len r"
      using min_chunk [OF k(1), of r] j by simp
    have "md5_read_loop seama len ctx =
        (ctx @ buf @ take (len - j) (drop j xs), (len - j) - min (len - j) (r - j),
         seama\<lparr>fpos := fpos seama + (j + min (len - j) (r - j))\<rparr>)"
    proof -
      have ih': "md5_read_loop s1 (len - j) (ctx @ buf) =
          (ctx @ buf @ take (len - j) (drop j xs), (len - j) - min (len - j) (r - j),
           s1\<lparr>fpos := fpos s1 + min (len - j) (r - j)\<rparr>)"
        using ih d r1 by (simp add: j_def)
      have eq': "md5_read_loop seama len ctx = md5_read_loop s1 (len - j) (ctx @ buf)"
        using True by (simp add: eq j_def)
      show ?thesis by (simp only: eq' ih') (simp add: s1_def add.assoc)
    qed
    moreover have "(len - j) - min (len - j) (r - j) = len - min len r" using m by linarith
    ultimately show ?thesis
      by (simp add: m split_take xs_def [symmetric] r_def [symmetric])
  qed
qed

text \<open>\<open>wrote c f f'\<close>: from \<open>f\<close> to \<open>f'\<close> the position has advanced by at least \<open>c\<close>
  bytes, and either nothing has happened or the position of \<open>f'\<close> is inside its file.
  \<open>build_inv\<close> is the invariant of both option loops: \<open>curr_offset\<close> is the header
  width plus both sizes, it is never ahead of the stream, and once something is counted the
  file reaches the position of the stream.\<close>

definition wrote :: "nat \<Rightarrow> FILE \<Rightarrow> FILE \<Rightarrow> bool" where
  "wrote c f f' =
     (fpos f + c \<le> fpos f' \<and> fseekable f' = fseekable f \<and> fcap f' = fcap f \<and>
      (f' = f \<and> c = 0 \<or> fpos f' \<le> length (fdata f')))"

definition build_inv :: "nat \<Rightarrow> build_state \<Rightarrow> bool" where
  "build_inv cap s =
     (b_curr_offset s = ENTITY_HDR_SIZE + b_metasize s + b_imagesize s \<and>
      b_curr_offset s \<le> fpos (b_seama s) \<and>
      (fpos (b_seama s) \<le> length (fdata (b_seama s)) \<or> b_curr_offset s = ENTITY_HDR_SIZE) \<and>
      fseekable (b_seama s) \<and> fcap (b_seama s) = cap \<and> b_err s = 0)"

lemma wrote_refl: "wrote 0 f f"
  by (simp add: wrote_def)

lemma wrote_trans: "wrote c1 f f1 \<Longrightarrow> wrote c2 f1 f2 \<Longrightarrow> wrote (c1 + c2) f f2"
  by (auto simp: wrote_def)

lemma wrote_drop: "wrote c f f' \<Longrightarrow> wrote 0 f f'"
  by (auto simp: wrote_def)

lemma fwrite_wrote:
  assumes "fwrite bs f = (n, f')"
  shows "wrote n f f'" and "n \<le> length bs"
  using assms by (auto simp: fwrite_def Let_def wrote_def split: if_splits)

lemma append_zeros_wrote:
  assumes "oseama_entity_append_zeros e f len = (r, f', ds)"
  shows "wrote (if r < 0 then 0 else nat r) f f'"
proof (cases "mem_limit e < len")
  case True
  then show ?thesis using assms by (auto simp: oseama_entity_append_zeros_def wrote_refl ENOMEM_def)
next
  case False
  obtain n f1 where w: "fwrite (replicate len 0) f = (n, f1)"
    by (cases "fwrite (replicate len 0) f") auto
  note fw = fwrite_wrote [OF w]
  show ?thesis
  proof (cases "n = len")
    case True
    then show ?thesis using assms False w fw(1)
      by (auto simp: oseama_entity_append_zeros_def)
  next
    case ne: False
    then show ?thesis using assms False w wrote_drop [OF fw(1)]
      by (auto simp: oseama_entity_append_zeros_def EIO_def)
  qed
qed

lemma align_wrote:
  assumes "oseama_entity_align e f off a = (r, f', ds)"
  shows "wrote (if r < 0 then 0 else nat r) f f'"
  using assms append_zeros_wrote [of e f "a - off mod a" r f' ds]
  by (auto simp: oseama_entity_align_def wrote_refl split: if_splits)

lemma append_file_loop_wrote:
  "append_file_loop inp f len = (r, f', ds) \<Longrightarrow> 0 \<le> len \<Longrightarrow>
     wrote (if r < 0 then 0 else nat r - nat len) f f' \<and> (r < 0 \<or> len \<le> r)"
proof (induction inp f len arbitrary: r f' ds rule: append_file_loop.induct)
  case (1 inp seama len)
  obtain buf inp1 where rd: "fread 128 inp = (buf, inp1)" by (cases "fread 128 inp") auto
  obtain n seama1 where w: "fwrite buf seama = (n, seama1)" by (cases "fwrite buf seama") auto
  note fw = fwrite_wrote [OF w]
  have eq: "append_file_loop inp seama len =
      (if 0 < length buf
       then if n \<noteq> length buf then (- EIO, seama1, [CouldntWrite (length buf)])
            else append_file_loop inp1 seama1 (len + int (length buf))
       else (len, seama, []))"
    by (subst append_file_loop.simps) (simp only: rd w Let_def split_conv)
  show ?case
  proof (cases "0 < length buf")
    case False
    then show ?thesis using "1.prems" by (auto simp: eq wrote_refl)
  next
    case True
    show ?thesis
    proof (cases "n = length buf")
      case ne: False
      then show ?thesis using "1.prems" True wrote_drop [OF fw(1)] by (auto simp: eq EIO_def)
    next
      case full: True
      then have rec: "append_file_loop inp1 seama1 (len + int (length buf)) = (r, f', ds)"
        using "1.prems"(1) True by (simp add: eq)
      have "wrote (if r < 0 then 0 else nat r - nat (len + int (length buf))) seama1 f' \<and>
            (r < 0 \<or> len + int (length buf) \<le> r)"
        using "1.IH" [OF refl rd [symmetric] True refl w [symmetric] _ rec] full "1.prems"(2) by simp
      then show ?thesis
        using wrote_trans [OF fw(1), of "if r < 0 then 0 else nat r - nat (len + int (length buf))" f']
          wrote_drop [OF fw(1)] full "1.prems"(2)
        by (auto simp: nat_add_distrib wrote_def split: if_splits)
    qed
  qed
qed

lemma append_file_wrote:
  assumes "oseama_entity_append_file e f in_path = (r, f', ds)"
  shows "wrote (if r < 0 then 0 else nat r) f f'"
proof (cases "fopen_r e in_path")
  case None
  then show ?thesis using assms by (auto simp: oseama_entity_append_file_def wrote_refl EACCES_def)
next
  case (Some inp)
  then have "append_file_loop inp f 0 = (r, f', ds)"
    using assms by (simp add: oseama_entity_append_file_def)
  from append_file_loop_wrote [OF this] show ?thesis by (cases "r < 0") simp_all
qed

lemma build_inv_upd:
  assumes "build_inv cap s"
    and "wrote c (b_seama s) (b_seama s')"
    and "b_curr_offset s' = b_curr_offset s + c"
    and "b_metasize s' + b_imagesize s' = b_metasize s + b_imagesize s + c"
    and "b_err s' = b_err s"
  shows "build_inv cap s'"
proof -
  from assms(1) have a: "b_curr_offset s = ENTITY_HDR_SIZE + b_metasize s + b_imagesize s"
    "b_curr_offset s \<le> fpos (b_seama s)"
    "fpos (b_seama s) \<le> length (fdata (b_seama s)) \<or> b_curr_offset s = ENTITY_HDR_SIZE"
    "fseekable (b_seama s)" "fcap (b_seama s) = cap" "b_err s = 0"
    unfolding build_inv_def by blast+
  from assms(2) have w: "fpos (b_seama s) + c \<le> fpos (b_seama s')"
    "fseekable (b_seama s') = fseekable (b_seama s)" "fcap (b_seama s') = fcap (b_seama s)"
    "b_seama s' = b_seama s \<and> c = 0 \<or> fpos (b_seama s') \<le> length (fdata (b_seama s'))"
    unfolding wrote_def by blast+
  have 1: "b_curr_offset s' = ENTITY_HDR_SIZE + b_metasize s' + b_imagesize s'"
    using a(1) assms(3,4) by linarith
  have 2: "b_curr_offset s' \<le> fpos (b_seama s')" using a(2) w(1) assms(3) by linarith
  have 3: "fpos (b_seama s') \<le> length (fdata (b_seama s')) \<or> b_curr_offset s' = ENTITY_HDR_SIZE"
    using a(3) w(4) assms(3) by (elim disjE conjE) simp_all
  show ?thesis unfolding build_inv_def using 1 2 3 a(4,5,6) w(2,3) assms(5) by simp
qed

lemma meta_opt_inv:
  assumes "build_inv cap s"
  shows "build_inv cap (entity_meta_opt e s c)"
proof (cases c)
  case (OptM optarg)
  obtain n f1 where w: "fwrite (optarg @ [0]) (b_seama s) = (n, f1)"
    by (cases "fwrite (optarg @ [0]) (b_seama s)") auto
  obtain r f2 ds where a: "oseama_entity_align e f1 (b_curr_offset s + n) 4 = (r, f2, ds)"
    by (cases "oseama_entity_align e f1 (b_curr_offset s + n) 4") auto
  note w1 = fwrite_wrote(1) [OF w]
  note w2 = align_wrote [OF a]
  show ?thesis
  proof (cases "r < 0")
    case True
    then have "wrote (n + 0) (b_seama s) f2" using w1 w2 by (intro wrote_trans) simp_all
    then show ?thesis using True
      by (intro build_inv_upd [OF assms, of n]) (simp_all add: entity_meta_opt_def OptM w a)
  next
    case False
    then have "wrote (n + nat r) (b_seama s) f2" using w1 w2 by (intro wrote_trans) simp_all
    then show ?thesis using False
      by (intro build_inv_upd [OF assms, of "n + nat r"]) (simp_all add: entity_meta_opt_def OptM w a)
  qed
qed (simp_all add: entity_meta_opt_def assms)

lemma meta_pass_inv: "build_inv cap s \<Longrightarrow> build_inv cap (entity_meta_pass e s cs)"
  by (induction cs arbitrary: s) (simp_all add: meta_opt_inv)

lemma image_opt_inv:
  assumes "build_inv cap s"
  shows "build_inv cap (entity_image_opt e s c)"
proof (cases c)
  case (OptM optarg)
  then show ?thesis using assms by (simp add: entity_image_opt_def)
next
  case (OptF in_path)
  obtain r f1 ds where a: "oseama_entity_append_file e (b_seama s) in_path = (r, f1, ds)"
    by (cases "oseama_entity_append_file e (b_seama s) in_path") auto
  note w = append_file_wrote [OF a]
  show ?thesis
  proof (cases "r < 0")
    case True
    then have "wrote 0 (b_seama s) f1" using w by simp
    then show ?thesis using True
      by (intro build_inv_upd [OF assms, of 0]) (simp_all add: entity_image_opt_def OptF a)
  next
    case False
    then have "wrote (nat r) (b_seama s) f1" using w by simp
    then show ?thesis using False
      by (intro build_inv_upd [OF assms, of "nat r"]) (simp_all add: entity_image_opt_def OptF a)
  qed
next
  case (OptB target)
  define sb where "sb = signed_take_bit 63 (target - int (b_curr_offset s))"
  show ?thesis
  proof (cases "sb < 0")
    case True
    then show ?thesis
      by (intro build_inv_upd [OF assms, of 0])
         (simp_all add: entity_image_opt_def OptB sb_def wrote_refl)
  next
    case nn: False
    obtain r f1 ds where a: "oseama_entity_append_zeros e (b_seama s) (nat sb) = (r, f1, ds)"
      by (cases "oseama_entity_append_zeros e (b_seama s) (nat sb)") auto
    note w = append_zeros_wrote [OF a]
    show ?thesis
    proof (cases "r < 0")
      case True
      then have "wrote 0 (b_seama s) f1" using w by simp
      then show ?thesis using True nn a
        by (intro build_inv_upd [OF assms, of 0])
           (simp_all add: entity_image_opt_def OptB sb_def [symmetric])
    next
      case False
      then have "wrote (nat r) (b_seama s) f1" using w by simp
      then show ?thesis using False nn a
        by (intro build_inv_upd [OF assms, of "nat r"])
           (simp_all add: entity_image_opt_def OptB sb_def [symmetric])
    qed
  qed
qed

lemma image_pass_inv: "build_inv cap s \<Longrightarrow> build_inv cap (entity_image_pass e s cs)"
  by (induction cs arbitrary: s) (simp_all add: image_opt_inv Let_def)

lemma length_digest_bytes: "length (digest_bytes d) = 16"
  by (simp add: digest_bytes_def)

lemma write_hdr_result:
  assumes "fseekable f" and "ENTITY_HDR_SIZE \<le> fcap f"
  shows "oseama_entity_write_hdr md5 f metasize imagesize =
           (0,
            f\<lparr>fdata := (cpu_to_be32 SEAMA_MAGIC @ [0, 0] @ cpu_to_be16 (of_nat metasize)
                         @ cpu_to_be32 (of_nat imagesize)
                         @ digest_bytes (md5 (take imagesize (drop (ENTITY_HDR_SIZE + metasize) (fdata f)))))
                        @ drop ENTITY_HDR_SIZE (fdata f),
              fpos := ENTITY_HDR_SIZE\<rparr>,
            [])"
proof -
  define hdr where "hdr = cpu_to_be32 SEAMA_MAGIC @ 0 # 0 # cpu_to_be16 (of_nat metasize)
                         @ cpu_to_be32 (of_nat imagesize)
                         @ digest_bytes (md5 (take imagesize (drop (ENTITY_HDR_SIZE + metasize) (fdata f))))"
  have lh: "length hdr = ENTITY_HDR_SIZE"
    by (simp add: hdr_def length_digest_bytes ENTITY_HDR_SIZE_def)
  define f2 where "f2 = f\<lparr>fpos := 0\<rparr>"
  have w: "fwrite hdr f2 = (ENTITY_HDR_SIZE, f\<lparr>fdata := hdr @ drop ENTITY_HDR_SIZE (fdata f), fpos := ENTITY_HDR_SIZE\<rparr>)"
  proof -
    have "hdr \<noteq> []" using lh by (auto simp: ENTITY_HDR_SIZE_def)
    then show ?thesis
      using fwrite_room [of f2 hdr] assms(2) lh by (simp add: f2_def)
  qed
  show ?thesis
    using assms(1) w
    by (simp add: oseama_entity_write_hdr_def fseek_set_def md5_read_loop_eq Let_def
        hdr_def [symmetric] f2_def)
qed

lemma build_passes_inv:
  assumes "fopen_w e seama_path = Some seama0"
  shows "build_inv (fcap seama0)
           (entity_image_pass e
              (entity_meta_pass e
                 \<lparr>b_seama = seama0\<lparr>fpos := ENTITY_HDR_SIZE\<rparr>, b_curr_offset = ENTITY_HDR_SIZE,
                  b_metasize = 0, b_imagesize = 0, b_err = 0, b_diags = []\<rparr> opts) opts)"
proof -
  have "fseekable seama0" using assms by (auto simp: fopen_w_def split: option.splits)
  then have "build_inv (fcap seama0)
               \<lparr>b_seama = seama0\<lparr>fpos := ENTITY_HDR_SIZE\<rparr>, b_curr_offset = ENTITY_HDR_SIZE,
                b_metasize = 0, b_imagesize = 0, b_err = 0, b_diags = []\<rparr>"
    by (simp add: build_inv_def)
  then show ?thesis by (intro image_pass_inv meta_pass_inv)
qed


text \<open>
  C4. For every run of the builder that opens its destination (with room for the header):
  let \<open>s2\<close> be the state when both option loops are done, with the metadata size
  \<open>b_metasize s2\<close>, the payload size \<open>b_imagesize s2\<close> and the stream \<open>b_seama s2\<close>, and
  let \<open>payload\<close> be the \<open>b_imagesize s2\<close> bytes of the stream that start at offset
  \<open>ENTITY_HDR_SIZE + b_metasize s2\<close>. There are that many bytes there, they follow the
  \<open>b_metasize s2\<close> bytes of metadata, and the header that is written back holds the digest of exactly
  \<open>payload\<close>, after the magic and both sizes; the bytes after the header are unchanged.
  The header is 28 bytes wide: 12 for magic, reserved, metasize and imagesize, 16 for the
  digest.
\<close>

theorem build_digest_covers_payload:
  assumes "fopen_w e seama_path = Some seama0"
    and "ENTITY_HDR_SIZE \<le> fcap seama0"
    and "s2 = entity_image_pass e
                (entity_meta_pass e
                   \<lparr>b_seama = seama0\<lparr>fpos := ENTITY_HDR_SIZE\<rparr>, b_curr_offset = ENTITY_HDR_SIZE,
                    b_metasize = 0, b_imagesize = 0, b_err = 0, b_diags = []\<rparr> opts) opts"
    and "payload = take (b_imagesize s2) (drop (ENTITY_HDR_SIZE + b_metasize s2) (fdata (b_seama s2)))"
  shows "length payload = b_imagesize s2 \<and>
         take (b_metasize s2 + b_imagesize s2) (drop ENTITY_HDR_SIZE (fdata (b_seama s2))) =
           take (b_metasize s2) (drop ENTITY_HDR_SIZE (fdata (b_seama s2))) @ payload \<and>
         oseama_entity e md5 (Some seama_path) opts =
           (0,
            Some ((b_seama s2)
                   \<lparr>fdata := (cpu_to_be32 SEAMA_MAGIC @ [0, 0] @ cpu_to_be16 (of_nat (b_metasize s2))
                               @ cpu_to_be32 (of_nat (b_imagesize s2)) @ digest_bytes (md5 payload))
                              @ drop ENTITY_HDR_SIZE (fdata (b_seama s2)),
                     fpos := ENTITY_HDR_SIZE\<rparr>),
            b_diags s2)"
proof -
  have inv: "build_inv (fcap seama0) s2"
    unfolding assms(3) using assms(1) by (rule build_passes_inv)
  then have a: "b_curr_offset s2 = ENTITY_HDR_SIZE + b_metasize s2 + b_imagesize s2"
    "b_curr_offset s2 \<le> fpos (b_seama s2)"
    "fpos (b_seama s2) \<le> length (fdata (b_seama s2)) \<or> b_curr_offset s2 = ENTITY_HDR_SIZE"
    "fseekable (b_seama s2)" "fcap (b_seama s2) = fcap seama0" "b_err s2 = 0"
    unfolding build_inv_def by blast+
  have len: "length payload = b_imagesize s2"
    using a(1,2,3) unfolding assms(4) by (elim disjE) simp_all
  have sk: "fseekable seama0" using assms(1) by (auto simp: fopen_w_def split: option.splits)
  have wh: "oseama_entity_write_hdr md5 (b_seama s2) (b_metasize s2) (b_imagesize s2) =
      (0, (b_seama s2)
            \<lparr>fdata := (cpu_to_be32 SEAMA_MAGIC @ [0, 0] @ cpu_to_be16 (of_nat (b_metasize s2))
                        @ cpu_to_be32 (of_nat (b_imagesize s2)) @ digest_bytes (md5 payload))
                       @ drop ENTITY_HDR_SIZE (fdata (b_seama s2)),
              fpos := ENTITY_HDR_SIZE\<rparr>, [])"
    unfolding assms(4) using a(4) assms(2) a(5) by (intro write_hdr_result) simp_all
  have "oseama_entity e md5 (Some seama_path) opts =
          (b_err s2, Some ((b_seama s2)
            \<lparr>fdata := (cpu_to_be32 SEAMA_MAGIC @ [0, 0] @ cpu_to_be16 (of_nat (b_metasize s2))
                        @ cpu_to_be32 (of_nat (b_imagesize s2)) @ digest_bytes (md5 payload))
                       @ drop ENTITY_HDR_SIZE (fdata (b_seama s2)),
              fpos := ENTITY_HDR_SIZE\<rparr>), b_diags s2 @ [])"
    using wh sk
    by (simp only: oseama_entity_def assms(1) option.case fseek_set_def if_True Let_def split_conv
        assms(3) [symmetric])
  moreover have "take (b_metasize s2 + b_imagesize s2) (drop ENTITY_HDR_SIZE (fdata (b_seama s2))) =
      take (b_metasize s2) (drop ENTITY_HDR_SIZE (fdata (b_seama s2))) @ payload"
    unfolding assms(4)
    using take_add [of "b_metasize s2" "b_imagesize s2" "drop ENTITY_HDR_SIZE (fdata (b_seama s2))"]
    by (simp add: add.commute [of ENTITY_HDR_SIZE])
  ultimately show ?thesis using len a(6) by simp
qed

lemma build_example_state:
  "entity_image_pass
     \<lparr>files = [(''f'', [1, 2, 3])], stdin_tty = False, stdin_seekable = False, stdin_data = [],
      mem_limit = 16, out_files = [(''o'', 64)], stdout_cap = 0\<rparr>
     (entity_meta_pass
        \<lparr>files = [(''f'', [1, 2, 3])], stdin_tty = False, stdin_seekable = False, stdin_data = [],
         mem_limit = 16, out_files = [(''o'', 64)], stdout_cap = 0\<rparr>
        \<lparr>b_seama = \<lparr>fdata = [], fpos = 0, fseekable = True, fcap = 64\<rparr>\<lparr>fpos := ENTITY_HDR_SIZE\<rparr>,
         b_curr_offset = ENTITY_HDR_SIZE, b_metasize = 0, b_imagesize = 0, b_err = 0, b_diags = []\<rparr>
        [OptM [97, 98, 99], OptF ''f'']) [OptM [97, 98, 99], OptF ''f''] =
   \<lparr>b_seama = \<lparr>fdata = [0, 0, 0, 0, 0, 0, 0, 0, 0, 0, 0, 0, 0, 0, 0, 0, 0, 0, 0, 0, 0, 0, 0, 0,
                         0, 0, 0, 0, 97, 98, 99, 0, 1, 2, 3],
               fpos = 35, fseekable = True, fcap = 64\<rparr>,
    b_curr_offset = 35, b_metasize = 4, b_imagesize = 3, b_err = 0, b_diags = []\<rparr>"
  by code_simp

theorem build_digest_covers_payload_witness:
  "oseama_entity
     \<lparr>files = [(''f'', [1, 2, 3])], stdin_tty = False, stdin_seekable = False, stdin_data = [],
      mem_limit = 16, out_files = [(''o'', 64)], stdout_cap = 0\<rparr>
     (\<lambda>bs. of_nat (length bs) + 256 * ucast (hd bs)) (Some ''o'') [OptM [97, 98, 99], OptF ''f''] =
   (0,
    Some \<lparr>fdata = [0x5e, 0xa3, 0xa4, 0x17, 0, 0, 0, 4, 0, 0, 0, 3] @ digest_bytes 259
                   @ [97, 98, 99, 0, 1, 2, 3],
          fpos = 28, fseekable = True, fcap = 64\<rparr>,
    [])"
  using build_digest_covers_payload [OF _ _ build_example_state [symmetric] refl,
      of "''o''" "\<lambda>bs. of_nat (length bs) + 256 * ucast (hd bs)"]
  by (simp add: fopen_w_def ENTITY_HDR_SIZE_def cpu_to_be32_def cpu_to_be16_def SEAMA_MAGIC_def)


subsection \<open>The loop that feeds the digest\<close>

text \<open>
  C5 (as the code has it). On every stream that holds at least \<open>len\<close> bytes from its
  position, the loop consumes exactly \<open>len\<close> bytes, feeds exactly those bytes to the
  digest in order, and ends with no byte still wanted. The builder has no error for a
  stream that ends before.
\<close>

theorem digest_loop_consumes:
  assumes "len \<le> length (fdata seama) - fpos seama"
  shows "md5_read_loop seama len ctx =
           (ctx @ take len (drop (fpos seama) (fdata seama)), 0, seama\<lparr>fpos := fpos seama + len\<rparr>)"
  using assms by (simp add: md5_read_loop_eq min_absorb1)

theorem digest_loop_consumes_witness:
  "md5_read_loop \<lparr>fdata = [9, 1, 2, 3], fpos = 1, fseekable = True, fcap = 4\<rparr> 2 [] =
     ([1, 2], 0, \<lparr>fdata = [9, 1, 2, 3], fpos = 3, fseekable = True, fcap = 4\<rparr>)"
  using digest_loop_consumes [of 2 "\<lparr>fdata = [9, 1, 2, 3], fpos = 1, fseekable = True, fcap = 4\<rparr>" "[]"]
  by simp


text \<open>
  C5 as the claim states it fails on a stream that ends early: two bytes follow the header
  and five are wanted; the loop consumes two and stops with three still wanted, and
  \<open>oseama_entity_write_hdr\<close> writes the header (image size 5, digest of two bytes) and
  returns 0 with nothing on stderr.
\<close>

theorem digest_short_stream_counterexample:
  "md5_read_loop \<lparr>fdata = replicate 28 0 @ [1, 2], fpos = 28, fseekable = True, fcap = 64\<rparr> 5 [] =
     ([1, 2], 3, \<lparr>fdata = replicate 28 0 @ [1, 2], fpos = 30, fseekable = True, fcap = 64\<rparr>) \<and>
   oseama_entity_write_hdr (\<lambda>bs. of_nat (length bs))
     \<lparr>fdata = replicate 28 0 @ [1, 2], fpos = 30, fseekable = True, fcap = 64\<rparr> 0 5 =
     (0,
      \<lparr>fdata = [0x5e, 0xa3, 0xa4, 0x17, 0, 0, 0, 0, 0, 0, 0, 5,
                0, 0, 0, 0, 0, 0, 0, 0, 0, 0, 0, 0, 0, 0, 0, 2, 1, 2],
        fpos = 28, fseekable = True, fcap = 64\<rparr>,
      [])"
  by code_simp

section \<open>Properties of Info\<close>

lemma info_entities_short_read:
  assumes "length (fdata seama) - fpos seama < ENTITY_HDR_SIZE"
  shows "oseama_info_entities entity_idx seama pos i out =
           Inr (0, seama\<lparr>fpos := fpos seama + (length (fdata seama) - fpos seama)\<rparr>, pos, out, [])"
  using assms
  by (subst oseama_info_entities.simps) (simp add: fread_short)

lemma info_entities_bad_magic:
  assumes "ENTITY_HDR_SIZE \<le> length (fdata seama) - fpos seama"
    and "hdr_magic (take ENTITY_HDR_SIZE (drop (fpos seama) (fdata seama))) \<noteq> SEAMA_MAGIC"
  shows "oseama_info_entities entity_idx seama pos i out =
           Inr (- EINVAL, seama\<lparr>fpos := fpos seama + ENTITY_HDR_SIZE\<rparr>, pos + ENTITY_HDR_SIZE, out,
                [InvalidMagic (hdr_magic (take ENTITY_HDR_SIZE (drop (fpos seama) (fdata seama))))])"
  using assms
  by (subst oseama_info_entities.simps) (simp add: fread_full Let_def)

text \<open>
  C7 (as the code has it). At every step of the entity iteration, a read of the next entity
  header that returns fewer bytes than the header has (no byte at all, or a part of a
  header) ends the iteration normally: \<open>err\<close> is 0, nothing is printed on stderr, and
  \<open>*pos\<close> and stdout are as they were. A header read in full whose magic is not
  \<open>SEAMA_MAGIC\<close> ends the iteration with \<open>-EINVAL\<close> and the diagnostic that shows the
  magic found.
\<close>

theorem info_entities_step:
  "(length (fdata seama) - fpos seama < ENTITY_HDR_SIZE \<longrightarrow>
      oseama_info_entities entity_idx seama pos i out =
        Inr (0, seama\<lparr>fpos := fpos seama + (length (fdata seama) - fpos seama)\<rparr>, pos, out, [])) \<and>
   (ENTITY_HDR_SIZE \<le> length (fdata seama) - fpos seama \<and>
    hdr_magic (take ENTITY_HDR_SIZE (drop (fpos seama) (fdata seama))) \<noteq> SEAMA_MAGIC \<longrightarrow>
      oseama_info_entities entity_idx seama pos i out =
        Inr (- EINVAL, seama\<lparr>fpos := fpos seama + ENTITY_HDR_SIZE\<rparr>, pos + ENTITY_HDR_SIZE, out,
             [InvalidMagic (hdr_magic (take ENTITY_HDR_SIZE (drop (fpos seama) (fdata seama))))]))"
  using info_entities_short_read [of seama entity_idx pos i out]
    info_entities_bad_magic [of seama entity_idx pos i out]
  by blast

theorem info_entities_step_witness:
  "oseama_info_entities (- 1) \<lparr>fdata = [], fpos = 0, fseekable = False, fcap = 0\<rparr> 12 0 [] =
     Inr (0, \<lparr>fdata = [], fpos = 0, fseekable = False, fcap = 0\<rparr>, 12, [], []) \<and>
   oseama_info_entities (- 1) \<lparr>fdata = replicate 28 0, fpos = 0, fseekable = False, fcap = 28\<rparr> 12 0 [] =
     Inr (- 22, \<lparr>fdata = replicate 28 0, fpos = 28, fseekable = False, fcap = 28\<rparr>, 40, [],
          [InvalidMagic 0])"
  using info_entities_step [of "\<lparr>fdata = [], fpos = 0, fseekable = False, fcap = 0\<rparr>" "- 1" 12 0 "[]"]
    info_entities_step [of "\<lparr>fdata = replicate 28 0, fpos = 0, fseekable = False, fcap = 28\<rparr>" "- 1" 12 0 "[]"]
  by (simp add: ENTITY_HDR_SIZE_def EINVAL_def hdr_magic_def be32_to_cpu_def SEAMA_MAGIC_def)

text \<open>
  C7 as the claim states it fails: five bytes where the next entity header should be (a
  partial header) end the iteration with \<open>err = 0\<close> and nothing on stderr.
\<close>

theorem info_entities_partial_header_counterexample:
  "oseama_info_entities (- 1) \<lparr>fdata = [0x5e, 0xa3, 0xa4, 0x17, 0], fpos = 0, fseekable = True, fcap = 5\<rparr> 0 0 [] =
     Inr (0, \<lparr>fdata = [0x5e, 0xa3, 0xa4, 0x17, 0], fpos = 5, fseekable = True, fcap = 5\<rparr>, 0, [], [])"
  using info_entities_short_read [of "\<lparr>fdata = [0x5e, 0xa3, 0xa4, 0x17, 0], fpos = 0, fseekable = True, fcap = 5\<rparr>" "- 1" 0 0 "[]"]
  by (simp add: ENTITY_HDR_SIZE_def)

text \<open>
  C1. Errors that are detected and reported on stderr, in runs that return 0:
  \<^item> Info: the entity header has a bad magic; \<open>oseama_info\<close> drops what
    \<open>oseama_info_entities\<close> returns.
  \<^item> Extract: the same container; \<open>oseama_extract\<close> drops what
    \<open>oseama_extract_entity\<close> returns.
  \<^item> Build: a file that cannot be opened and a pad target behind the current offset;
    \<open>oseama_entity\<close> never assigns \<open>err\<close> after the file is open.
  In each of the three runs every write reaches the file.
\<close>

theorem detected_errors_return_zero:
  "oseama_info
     \<lparr>files = [(''c'', [0x5e, 0xa3, 0xa4, 0x17, 0, 0, 0, 1, 0, 0, 0, 0, 0,
                        0, 0, 0, 0, 0, 0, 0, 0, 0, 0, 0, 0,
                        0, 0, 0, 0, 0, 0, 0, 0, 0, 0, 0, 0, 0, 0, 0, 0])], stdin_tty = False,
      stdin_seekable = False, stdin_data = [], mem_limit = 16, out_files = [(''o'', 64)],
      stdout_cap = 64\<rparr>
     (Some ''c'') (- 1) =
   Inr (0, [MetaSize 1, ImageSize 0], [InvalidMagic 0]) \<and>
   oseama_extract
     \<lparr>files = [(''c'', [0x5e, 0xa3, 0xa4, 0x17, 0, 0, 0, 1, 0, 0, 0, 0, 0,
                        0, 0, 0, 0, 0, 0, 0, 0, 0, 0, 0, 0,
                        0, 0, 0, 0, 0, 0, 0, 0, 0, 0, 0, 0, 0, 0, 0, 0])], stdin_tty = False,
      stdin_seekable = False, stdin_data = [], mem_limit = 16, out_files = [(''o'', 64)],
      stdout_cap = 64\<rparr>
     (Some ''c'') 0 None =
   (0, Some \<lparr>fdata = [], fpos = 0, fseekable = False, fcap = 64\<rparr>, [InvalidMagic 0]) \<and>
   oseama_entity
     \<lparr>files = [], stdin_tty = False,
      stdin_seekable = False, stdin_data = [], mem_limit = 16, out_files = [(''o'', 64)],
      stdout_cap = 64\<rparr>
     (\<lambda>bs. 0) (Some ''o'') [OptF ''missing'', OptB 10] =
   (0, Some \<lparr>fdata = [0x5e, 0xa3, 0xa4, 0x17, 0, 0, 0, 0, 0, 0, 0, 0,
                        0, 0, 0, 0, 0, 0, 0, 0, 0, 0, 0, 0, 0, 0, 0, 0],
              fpos = 28, fseekable = True, fcap = 64\<rparr>,
    [CouldntOpen ''missing'', FailedAppendFile ''missing'', CantPad 28 10])"
  by code_simp

lemma strlen_found:
  assumes "tmp \<le> endp" and "endp < length buf" and "buf ! endp = 0"
  shows "\<exists>n. strlen buf tmp = Inr n"
proof -
  have "endp - tmp < length (drop tmp buf)" using assms(1,2) by simp
  then have "drop tmp buf ! (endp - tmp) \<in> set (drop tmp buf)" by (rule nth_mem)
  moreover have "drop tmp buf ! (endp - tmp) = buf ! endp" using assms(1,2) by simp
  ultimately have "0 \<in> set (drop tmp buf)" using assms(3) by simp
  then show ?thesis by (simp add: strlen_def)
qed

lemma meta_entries_loop_no_fault:
  assumes "endp < length buf" and "buf ! endp = 0"
  shows "\<exists>out'. meta_entries_loop buf endp tmp out = Inr out'"
  using assms
proof (induction buf endp tmp out rule: meta_entries_loop.induct)
  case (1 buf endp tmp out)
  show ?case
  proof (cases "tmp < endp")
    case False
    then show ?thesis by (subst meta_entries_loop.simps) simp
  next
    case True
    then obtain n where n: "strlen buf tmp = Inr n"
      using strlen_found [of tmp endp buf] "1.prems" by auto
    show ?thesis
    proof (cases "n = 0")
      case True
      then show ?thesis using n by (subst meta_entries_loop.simps) simp
    next
      case False
      from "1.IH" [OF \<open>tmp < endp\<close> n False "1.prems"]
      show ?thesis using n False \<open>tmp < endp\<close> by (subst meta_entries_loop.simps) simp
    qed
  qed
qed

lemma print_meta_entries_no_fault:
  assumes "0 < metasize" and "length buf = metasize"
  shows "\<exists>out'. print_meta_entries buf metasize out = Inr out'"
proof -
  have st: "buf_store buf (int metasize - 1) 0 = Inr (buf[metasize - 1 := 0])"
    using assms by (auto simp: buf_store_def nat_diff_distrib')
  show ?thesis
    using meta_entries_loop_no_fault [of "metasize - 1" "buf[metasize - 1 := 0]" 0 out] assms
    by (simp add: print_meta_entries_def st)
qed

lemma print_meta_entries_zero: "print_meta_entries [] 0 out = Inl (OutOfBounds (- 1))"
  by (simp add: print_meta_entries_def buf_store_def)

lemma info_seal_metasize_zero:
  assumes "oseama_open e seama_path = (Some seama, ds)"
    and "fdata seama = seal_hdr 0 @ rest"
    and "fpos seama = 0"
    and "entity_idx < 0"
  shows "oseama_info e (Some seama_path) entity_idx = Inl (OutOfBounds (- 1))"
proof -
  note sh = seal_hdr_fields [of 0]
  have rd: "fread SEAL_HDR_SIZE seama = (seal_hdr 0, seama\<lparr>fpos := SEAL_HDR_SIZE\<rparr>)"
    using fread_full [of SEAL_HDR_SIZE seama] sh(1) assms(2,3) by simp
  have rd2: "fread 0 (seama\<lparr>fpos := SEAL_HDR_SIZE\<rparr>) = ([], seama\<lparr>fpos := SEAL_HDR_SIZE\<rparr>)"
    by (simp add: fread_def)
  show ?thesis
    using sh assms(4)
    by (simp add: oseama_info_def assms(1) rd rd2 META_BUF_SIZE_def print_meta_entries_zero)
qed

lemma info_entities_metasize_zero:
  assumes "ENTITY_HDR_SIZE \<le> length (fdata seama) - fpos seama"
    and "hdr = take ENTITY_HDR_SIZE (drop (fpos seama) (fdata seama))"
    and "hdr_magic hdr = SEAMA_MAGIC"
    and "hdr_metasize hdr = 0"
    and "entity_idx < 0 \<or> i = entity_idx"
  shows "oseama_info_entities entity_idx seama pos i out = Inl (OutOfBounds (- 1))"
proof -
  have rd: "fread ENTITY_HDR_SIZE seama = (hdr, seama\<lparr>fpos := fpos seama + ENTITY_HDR_SIZE\<rparr>)"
    using fread_full [OF assms(1)] assms(2) by simp
  have lh: "length hdr = ENTITY_HDR_SIZE" using assms(1,2) by simp
  have rd2: "fread 0 (seama\<lparr>fpos := fpos seama + ENTITY_HDR_SIZE\<rparr>) =
               ([], seama\<lparr>fpos := fpos seama + ENTITY_HDR_SIZE\<rparr>)"
    by (simp add: fread_def)
  show ?thesis
    using assms(3,4,5) lh
    by (subst oseama_info_entities.simps)
       (auto simp: rd rd2 Let_def META_BUF_SIZE_def print_meta_entries_zero)
qed

text \<open>
  C10. The decoding of a metadata block stores the terminator at index \<open>metasize - 1\<close>
  of the buffer. With \<open>metasize = 0\<close> that is index \<open>-1\<close>, one byte before the buffer,
  and the checks before the decoding let such a header through:
  \<^item> in \<open>oseama_info\<close>, a seal header with the right magic, \<open>metasize = 0\<close> and
    \<open>imagesize = 0\<close> passes every check and, without \<open>-e\<close>, reaches the store;
  \<^item> in \<open>oseama_info_entities\<close>, so does an entity header with the right magic and
    \<open>metasize = 0\<close> when the entity is one that is printed.
  With \<open>metasize\<close> at least 1 (and the \<open>metasize\<close> bytes read) the store is inside the
  buffer and every \<open>strlen\<close> of the loop finds its terminator in it: the decoding returns.
\<close>

theorem meta_decode_needs_nonempty:
  "(oseama_open e seama_path = (Some seama, ds) \<and> fdata seama = seal_hdr 0 @ rest \<and>
    fpos seama = 0 \<and> entity_idx < 0 \<longrightarrow>
      oseama_info e (Some seama_path) entity_idx = Inl (OutOfBounds (- 1))) \<and>
   (ENTITY_HDR_SIZE \<le> length (fdata fp) - fpos fp \<and>
    hdr_magic (take ENTITY_HDR_SIZE (drop (fpos fp) (fdata fp))) = SEAMA_MAGIC \<and>
    hdr_metasize (take ENTITY_HDR_SIZE (drop (fpos fp) (fdata fp))) = 0 \<and>
    (idx < 0 \<or> i = idx) \<longrightarrow>
      oseama_info_entities idx fp pos i out = Inl (OutOfBounds (- 1))) \<and>
   (0 < metasize \<and> length buf = metasize \<longrightarrow>
      (\<exists>out'. print_meta_entries buf metasize out = Inr out'))"
  using info_seal_metasize_zero [of e seama_path seama ds rest entity_idx]
    info_entities_metasize_zero [of fp _ idx i pos out, OF _ refl]
    print_meta_entries_no_fault [of metasize buf out]
  by blast

theorem meta_decode_needs_nonempty_witness:
  "oseama_info
     \<lparr>files = [(''c'', [0x5e, 0xa3, 0xa4, 0x17, 0, 0, 0, 0, 0, 0, 0, 0])], stdin_tty = False,
      stdin_seekable = False, stdin_data = [], mem_limit = 0, out_files = [], stdout_cap = 0\<rparr>
     (Some ''c'') (- 1) = Inl (OutOfBounds (- 1)) \<and>
   oseama_info_entities (- 1)
     \<lparr>fdata = [0x5e, 0xa3, 0xa4, 0x17, 0, 0, 0, 0, 0, 0, 0, 0,
               0, 0, 0, 0, 0, 0, 0, 0, 0, 0, 0, 0, 0, 0, 0, 0],
      fpos = 0, fseekable = True, fcap = 28\<rparr> 12 0 [] = Inl (OutOfBounds (- 1)) \<and>
   (\<exists>out'. print_meta_entries [97, 0] 2 [] = Inr out')"
  using meta_decode_needs_nonempty [of
      "\<lparr>files = [(''c'', [0x5e, 0xa3, 0xa4, 0x17, 0, 0, 0, 0, 0, 0, 0, 0])], stdin_tty = False,
        stdin_seekable = False, stdin_data = [], mem_limit = 0, out_files = [], stdout_cap = 0\<rparr>"
      "''c''"
      "\<lparr>fdata = [0x5e, 0xa3, 0xa4, 0x17, 0, 0, 0, 0, 0, 0, 0, 0], fpos = 0, fseekable = True, fcap = 12\<rparr>"
      "[]" "[]" "- 1"
      "\<lparr>fdata = [0x5e, 0xa3, 0xa4, 0x17, 0, 0, 0, 0, 0, 0, 0, 0,
                 0, 0, 0, 0, 0, 0, 0, 0, 0, 0, 0, 0, 0, 0, 0, 0],
        fpos = 0, fseekable = True, fcap = 28\<rparr>"
      "- 1" 0 12 "[]" 2 "[97, 0]"]
  by (simp add: oseama_open_def fopen_r_def seal_hdr_def cpu_to_be32_def cpu_to_be16_def
      SEAMA_MAGIC_def ENTITY_HDR_SIZE_def hdr_magic_def hdr_metasize_def be32_to_cpu_def
      be16_to_cpu_def)


section \<open>Properties of Extract\<close>

lemma extract_entity_short_read:
  assumes "length (fdata seama) - fpos seama < ENTITY_HDR_SIZE"
  shows "oseama_extract_entity entity_idx seama out i =
           (0, seama\<lparr>fpos := fpos seama + (length (fdata seama) - fpos seama)\<rparr>, out, [])"
  using assms
  by (subst oseama_extract_entity.simps) (simp add: fread_short)

lemma extract_entity_other:
  assumes "ENTITY_HDR_SIZE \<le> length (fdata seama) - fpos seama"
    and "hdr = take ENTITY_HDR_SIZE (drop (fpos seama) (fdata seama))"
    and "hdr_magic hdr = SEAMA_MAGIC"
    and "i \<noteq> entity_idx"
  shows "oseama_extract_entity entity_idx seama out i =
           oseama_extract_entity entity_idx
             (snd (oseama_skip (seama\<lparr>fpos := fpos seama + ENTITY_HDR_SIZE\<rparr>)
                (unat (hdr_metasize hdr) + unat (hdr_imagesize hdr)))) out (i + 1)"
  using assms
  by (subst oseama_extract_entity.simps) (simp add: fread_full Let_def case_prod_beta)

lemma extract_entity_past_end:
  assumes "list_all wf_entity es"
    and "fdata seama = pre @ concat (map entity_bytes es)"
    and "fpos seama = length pre"
    and "i + int (length es) \<le> entity_idx"
  shows "oseama_extract_entity entity_idx seama out i =
           (0, seama\<lparr>fpos := length (fdata seama)\<rparr>, out, [])"
  using assms
proof (induction es arbitrary: pre seama i)
  case Nil
  then show ?case using extract_entity_short_read [of seama entity_idx out i]
    by (simp add: ENTITY_HDR_SIZE_def)
next
  case (Cons en es)
  let ?rest = "concat (map entity_bytes es)"
  let ?m = "length (e_meta en)" and ?im = "length (e_image en)"
  have wf: "wf_entity en" and wfs: "list_all wf_entity es" using Cons.prems(1) by simp_all
  note h = entity_hdr_fields [OF wf]
  have eb: "entity_bytes en = entity_hdr en @ e_meta en @ e_image en"
    by (simp add: entity_bytes_def)
  have data: "fdata seama = pre @ entity_hdr en @ e_meta en @ e_image en @ ?rest"
    using Cons.prems(2) by (simp add: eb)
  have hdr: "take ENTITY_HDR_SIZE (drop (fpos seama) (fdata seama)) = entity_hdr en"
    using h(1) by (simp add: data Cons.prems(3))
  have enough: "ENTITY_HDR_SIZE \<le> length (fdata seama) - fpos seama"
    using h(1) by (simp add: data Cons.prems(3))
  let ?s1 = "seama\<lparr>fpos := fpos seama + ENTITY_HDR_SIZE\<rparr>"
  let ?s2 = "seama\<lparr>fpos := fpos seama + ENTITY_HDR_SIZE + (?m + ?im)\<rparr>"
  have skip: "snd (oseama_skip ?s1 (?m + ?im)) = ?s2"
    using oseama_skip_enough [of "?m + ?im" ?s1] h(1)
    by (simp add: data Cons.prems(3))
  have step: "oseama_extract_entity entity_idx seama out i =
              oseama_extract_entity entity_idx ?s2 out (i + 1)"
    using extract_entity_other [OF enough hdr [symmetric], of i entity_idx out] Cons.prems(4) h skip
    by (simp add: hdr)
  have "oseama_extract_entity entity_idx ?s2 out (i + 1) =
          (0, ?s2\<lparr>fpos := length (fdata ?s2)\<rparr>, out, [])"
  proof (rule Cons.IH [OF wfs, of _ "pre @ entity_bytes en"])
    show "fdata ?s2 = (pre @ entity_bytes en) @ ?rest"
      by (simp add: data eb)
    show "fpos ?s2 = length (pre @ entity_bytes en)"
      using h(1) by (simp add: Cons.prems(3) eb)
    show "i + 1 + int (length es) \<le> entity_idx" using Cons.prems(4) by simp
  qed
  then show ?case by (simp add: step)
qed

text \<open>
  C2 (as the code has it). For every container whose entity stream holds the entities
  \<open>es\<close>, each with sizes that fit its header fields, and every requested index from
  \<open>length es\<close> on, Extract reaches the end of the stream without meeting the index and
  does not fail: it returns 0, prints nothing on stderr and leaves the destination as it was
  opened. The source has no error for an entity that is not found.
\<close>

theorem extract_index_past_end:
  assumes "list_all wf_entity es"
    and "length smeta < 2 ^ 16"
    and "int (length es) \<le> entity_idx"
    and "oseama_open e seama_path = (Some seama, [])"
    and "fdata seama = container smeta es"
    and "fpos seama = 0"
    and "extract_open_out e out_path = (Some out, [])"
  shows "oseama_extract e (Some seama_path) entity_idx out_path = (0, Some out, [])"
proof -
  let ?n = "length smeta"
  let ?s1 = "seama\<lparr>fpos := SEAL_HDR_SIZE\<rparr>"
  let ?s2 = "seama\<lparr>fpos := SEAL_HDR_SIZE + ?n\<rparr>"
  note sh = seal_hdr_fields [of ?n]
  have rd: "fread SEAL_HDR_SIZE seama = (seal_hdr ?n, ?s1)"
    using fread_full [of SEAL_HDR_SIZE seama] sh(1) assms(5,6) by (simp add: container_def)
  have ms: "unat (hdr_metasize (seal_hdr ?n)) = ?n"
    using assms(2) by (simp add: sh(3) unat_of_nat_u16)
  have sk: "snd (oseama_skip ?s1 ?n) = ?s2"
    using oseama_skip_enough [of ?n ?s1] sh(1) assms(5) by (simp add: container_def)
  have ex: "oseama_extract_entity entity_idx ?s2 out 0 = (0, ?s2\<lparr>fpos := length (fdata ?s2)\<rparr>, out, [])"
  proof (rule extract_entity_past_end [OF assms(1), of _ "seal_hdr ?n @ smeta"])
    show "fdata ?s2 = (seal_hdr ?n @ smeta) @ concat (map entity_bytes es)"
      using assms(5) by (simp add: container_def)
    show "fpos ?s2 = length (seal_hdr ?n @ smeta)" using sh(1) by simp
    show "0 + int (length es) \<le> entity_idx" using assms(3) by simp
  qed
  have idx: "\<not> entity_idx < 0" using assms(3) by simp
  show ?thesis
    using idx sh(1) ms sk ex
    by (simp add: oseama_extract_def assms(4,7) rd Let_def case_prod_beta)
qed

theorem extract_index_past_end_witness:
  "oseama_extract
     \<lparr>files = [(''c'', [0x5e, 0xa3, 0xa4, 0x17, 0, 0, 0, 0, 0, 0, 0, 0])], stdin_tty = False,
      stdin_seekable = False, stdin_data = [], mem_limit = 0, out_files = [], stdout_cap = 64\<rparr>
     (Some ''c'') 0 None =
   (0, Some \<lparr>fdata = [], fpos = 0, fseekable = False, fcap = 64\<rparr>, [])"
  using extract_index_past_end [of "[]" "[]" 0
      "\<lparr>files = [(''c'', [0x5e, 0xa3, 0xa4, 0x17, 0, 0, 0, 0, 0, 0, 0, 0])], stdin_tty = False,
        stdin_seekable = False, stdin_data = [], mem_limit = 0, out_files = [], stdout_cap = 64\<rparr>"
      "''c''"
      "\<lparr>fdata = [0x5e, 0xa3, 0xa4, 0x17, 0, 0, 0, 0, 0, 0, 0, 0], fpos = 0, fseekable = True, fcap = 12\<rparr>"
      None "\<lparr>fdata = [], fpos = 0, fseekable = False, fcap = 64\<rparr>"]
  by (simp add: oseama_open_def fopen_r_def extract_open_out_def container_def seal_hdr_def
      cpu_to_be32_def cpu_to_be16_def SEAMA_MAGIC_def)

text \<open>
  C2 as the claim states it fails: a container with one entity, index 1 requested; the
  status is 0 and stderr is empty.
\<close>

theorem extract_index_past_end_counterexample:
  "oseama_extract
     \<lparr>files = [(''c'', [0x5e, 0xa3, 0xa4, 0x17, 0, 0, 0, 0, 0, 0, 0, 0,
                        0x5e, 0xa3, 0xa4, 0x17, 0, 0, 0, 0, 0, 0, 0, 1,
                        0, 0, 0, 0, 0, 0, 0, 0, 0, 0, 0, 0, 0, 0, 0, 0, 9])], stdin_tty = False,
      stdin_seekable = False, stdin_data = [], mem_limit = 0, out_files = [], stdout_cap = 64\<rparr>
     (Some ''c'') 1 None =
   (0, Some \<lparr>fdata = [], fpos = 0, fseekable = False, fcap = 64\<rparr>, [])"
  by code_simp

text \<open>
  C3. A container whose seal header has the magic 0 and whose only entity is well formed:
  \<open>oseama_extract\<close> never looks at the magic of the seal header, copies entity 0 to the
  destination and returns 0 with nothing on stderr. \<open>oseama_info\<close> on the same container
  stops at the seal header with \<open>-EINVAL\<close> and the diagnostic of the bad magic.
\<close>

theorem extract_ignores_seal_magic:
  "oseama_extract
     \<lparr>files = [(''c'', [0, 0, 0, 0, 0, 0, 0, 0, 0, 0, 0, 0,
                        0x5e, 0xa3, 0xa4, 0x17, 0, 0, 0, 0, 0, 0, 0, 1,
                        0, 0, 0, 0, 0, 0, 0, 0, 0, 0, 0, 0, 0, 0, 0, 0, 9])], stdin_tty = False,
      stdin_seekable = False, stdin_data = [], mem_limit = 0, out_files = [], stdout_cap = 64\<rparr>
     (Some ''c'') 0 None =
   (0, Some \<lparr>fdata = [0x5e, 0xa3, 0xa4, 0x17, 0, 0, 0, 0, 0, 0, 0, 1,
                        0, 0, 0, 0, 0, 0, 0, 0, 0, 0, 0, 0, 0, 0, 0, 0, 9],
              fpos = 29, fseekable = False, fcap = 64\<rparr>, []) \<and>
   oseama_info
     \<lparr>files = [(''c'', [0, 0, 0, 0, 0, 0, 0, 0, 0, 0, 0, 0,
                        0x5e, 0xa3, 0xa4, 0x17, 0, 0, 0, 0, 0, 0, 0, 1,
                        0, 0, 0, 0, 0, 0, 0, 0, 0, 0, 0, 0, 0, 0, 0, 0, 9])], stdin_tty = False,
      stdin_seekable = False, stdin_data = [], mem_limit = 0, out_files = [], stdout_cap = 64\<rparr>
     (Some ''c'') 0 = Inr (- 22, [], [InvalidMagic 0])"
  by code_simp

section \<open>Metadata: what the builder writes and what Info decodes\<close>


















end
